theory Spec2Isabelle
  imports Complex_Main "HOL-Library.Word"
begin

section \<open>JavaScript values\<close>

text \<open>
  A JavaScript string is a sequence of UTF-16 code units; a code unit is kept as a natural
  number below \<open>65536\<close>. String literals of the source are written with \<open>js\<close>.
\<close>

type_synonym jsstring = "nat list"

definition js :: "string \<Rightarrow> jsstring" where
  "js s = map of_char s"

text \<open>
  The values the code handles: what \<open>JSON.parse\<close> returns, and \<open>undefined\<close> (a missing
  property, or what a callback may return). The code never computes with a number: it
  tests whether it is truthy and concatenates it to a string, so a number is kept as these
  two observations (\<open>JNum falsy shown\<close>: whether it is \<open>0\<close>, \<open>-0\<close> or \<open>NaN\<close>, and its
  \<open>ToString\<close>). An object is the list of its own properties, as \<open>JSON.parse\<close> built it.
\<close>

datatype jsval =
    JUndefined
  | JNull
  | JBool bool
  | JNum bool jsstring
  | JStr jsstring
  | JArr "jsval list"
  | JObj "(jsstring \<times> jsval) list"

text \<open>Truthiness (\<open>ToBoolean\<close>), as \<open>!x\<close>, \<open>x || y\<close>, \<open>x && y\<close> and \<open>if (x)\<close> see a value.\<close>

fun truthy :: "jsval \<Rightarrow> bool" where
  "truthy JUndefined = False"
| "truthy JNull = False"
| "truthy (JBool b) = b"
| "truthy (JNum falsy shown) = (\<not> falsy)"
| "truthy (JStr s) = (s \<noteq> [])"
| "truthy (JArr xs) = True"
| "truthy (JObj kvs) = True"

text \<open>\<open>a || b\<close> and \<open>a ?? b\<close>.\<close>

definition js_or :: "jsval \<Rightarrow> jsval \<Rightarrow> jsval" where
  "js_or a b = (if truthy a then a else b)"

definition nullish :: "jsval \<Rightarrow> bool" where
  "nullish v = (v = JUndefined \<or> v = JNull)"

definition js_coalesce :: "jsval \<Rightarrow> jsval \<Rightarrow> jsval" where
  "js_coalesce a b = (if nullish a then b else a)"

text \<open>
  \<open>ToString\<close>, as string concatenation (\<open>+\<close>, \<open>+=\<close>), \<open>Array.prototype.join\<close>,
  \<open>String(x)\<close> and a template literal apply it. \<open>None\<close> is a raised \<open>TypeError\<close>: an
  object that has an own property \<open>toString\<close> cannot be converted, since a value built by
  \<open>JSON.parse\<close> is never callable and \<open>valueOf\<close> gives no primitive. Every other plain
  object gives \<open>[object Object]\<close>. An array is joined with commas (\<open>null\<close> and
  \<open>undefined\<close> elements give the empty string), and raises when an element does.
\<close>

fun join_with :: "jsstring \<Rightarrow> jsstring list \<Rightarrow> jsstring" where
  "join_with sep [] = []"
| "join_with sep [x] = x"
| "join_with sep (x # y # ys) = x @ sep @ join_with sep (y # ys)"

fun to_string :: "jsval \<Rightarrow> jsstring option" where
  "to_string JUndefined = Some (js ''undefined'')"
| "to_string JNull = Some (js ''null'')"
| "to_string (JBool b) = Some (if b then js ''true'' else js ''false'')"
| "to_string (JNum falsy shown) = Some shown"
| "to_string (JStr s) = Some s"
| "to_string (JArr xs) =
     (case those (map (\<lambda>x. if nullish x then Some [] else to_string x) xs) of
        None \<Rightarrow> None
      | Some shown \<Rightarrow> Some (join_with (js '','') shown))"
| "to_string (JObj kvs) =
     (if map_of kvs (js ''toString'') \<noteq> None then None else Some (js ''[object Object]''))"

text \<open>The \<open>TypeError\<close> of a failed conversion is raised with this message.\<close>

definition cannot_convert :: jsstring where
  "cannot_convert = js ''Cannot convert object to primitive value''"

text \<open>
  Property access \<open>v.name\<close>: on \<open>null\<close> and \<open>undefined\<close> it raises a \<open>TypeError\<close>
  (\<open>None\<close>); on an object it is the own property or \<open>undefined\<close>; on every other value
  it is \<open>undefined\<close> (none of the names the code reads is a built-in property).
  Optional chaining \<open>v?.name\<close> gives \<open>undefined\<close> where \<open>v.name\<close> raises.
\<close>

fun get_prop :: "jsval \<Rightarrow> jsstring \<Rightarrow> jsval option" where
  "get_prop JUndefined name = None"
| "get_prop JNull name = None"
| "get_prop (JObj kvs) name =
     Some (case map_of kvs name of None \<Rightarrow> JUndefined | Some v \<Rightarrow> v)"
| "get_prop v name = Some JUndefined"

definition get_prop_opt :: "jsval \<Rightarrow> jsstring \<Rightarrow> jsval" where
  "get_prop_opt v name = (case get_prop v name of None \<Rightarrow> JUndefined | Some x \<Rightarrow> x)"

section \<open>SignatureStore and ThoughtBuffer\<close>

text \<open>
  Modelled from the spec: the declaration of \<open>SignedThinking\<close> (\<open>./types\<close>) is not among the
  sources; the spec has it as the pair \<open>{text, signature}\<close>. The signature is stored as the
  value found in the response (the source casts it to a string without looking at it).
\<close>

record SignedThinking =
  st_text :: jsstring
  st_signature :: jsval

text \<open>
  \<open>createSignatureStore\<close> wraps a \<open>Map<string, SignedThinking>\<close>;
  \<open>createThoughtBuffer\<close> wraps a \<open>Map<number, string>\<close>. Each method is the map's.
\<close>

type_synonym SignatureStore = "jsstring \<rightharpoonup> SignedThinking"

definition createSignatureStore :: SignatureStore where
  "createSignatureStore = Map.empty"

definition store_get :: "SignatureStore \<Rightarrow> jsstring \<Rightarrow> SignedThinking option" where
  "store_get store key = store key"

definition store_set :: "SignatureStore \<Rightarrow> jsstring \<Rightarrow> SignedThinking \<Rightarrow> SignatureStore" where
  "store_set store key v = store(key \<mapsto> v)"

definition store_has :: "SignatureStore \<Rightarrow> jsstring \<Rightarrow> bool" where
  "store_has store key = (store key \<noteq> None)"

definition store_delete :: "SignatureStore \<Rightarrow> jsstring \<Rightarrow> SignatureStore" where
  "store_delete store key = store(key := None)"

type_synonym ThoughtBuffer = "nat \<rightharpoonup> jsstring"

definition createThoughtBuffer :: ThoughtBuffer where
  "createThoughtBuffer = Map.empty"

definition tb_get :: "ThoughtBuffer \<Rightarrow> nat \<Rightarrow> jsstring option" where
  "tb_get buffer i = buffer i"

definition tb_set :: "ThoughtBuffer \<Rightarrow> nat \<Rightarrow> jsstring \<Rightarrow> ThoughtBuffer" where
  "tb_set buffer i t = buffer(i \<mapsto> t)"

definition tb_clear :: "ThoughtBuffer \<Rightarrow> ThoughtBuffer" where
  "tb_clear buffer = Map.empty"

text \<open>
  A client of the store: a sequence of method calls, each made at some time (milliseconds).
  The store's methods take no time argument and read no clock, so the time of a call does
  not enter \<open>store_call\<close>.
\<close>

datatype store_op =
    Get jsstring
  | Set jsstring SignedThinking
  | Has jsstring
  | Delete jsstring

datatype store_result =
    Got "SignedThinking option"
  | Had bool
  | Done

fun store_call :: "SignatureStore \<Rightarrow> store_op \<Rightarrow> SignatureStore \<times> store_result" where
  "store_call store (Get key) = (store, Got (store_get store key))"
| "store_call store (Set key v) = (store_set store key v, Done)"
| "store_call store (Has key) = (store, Had (store_has store key))"
| "store_call store (Delete key) = (store_delete store key, Done)"

text \<open>
  \<open>run_store\<close> performs the calls in order. Beside the store it keeps, for the property
  below only, the time at which each key was last set, and it returns, for every \<open>get\<close>
  that found an entry, the age of that entry at the time of the \<open>get\<close>.
\<close>

fun run_store ::
  "SignatureStore \<Rightarrow> (jsstring \<rightharpoonup> nat) \<Rightarrow> (nat \<times> store_op) list \<Rightarrow> SignatureStore \<times> nat list"
where
  "run_store store born [] = (store, [])"
| "run_store store born ((now, opn) # rest) =
     (let (store', res) = store_call store opn;
          born' = (case opn of Set key v \<Rightarrow> born(key \<mapsto> now) | _ \<Rightarrow> born);
          ages = (case (opn, res) of
                    (Get key, Got (Some v)) \<Rightarrow>
                      (case born key of Some t \<Rightarrow> [now - t] | None \<Rightarrow> [])
                  | _ \<Rightarrow> []);
          (final, more) = run_store store' born' rest
      in (final, ages @ more))"

text \<open>The property of the specification: no \<open>get\<close> returns an entry older than the TTL.\<close>

definition never_stale :: "nat \<Rightarrow> (nat \<times> store_op) list \<Rightarrow> bool" where
  "never_stale ttl calls =
     list_all (\<lambda>age. age \<le> ttl) (snd (run_store createSignatureStore Map.empty calls))"

text \<open>Whether a call writes the entry of a key.\<close>

fun writes_key :: "jsstring \<Rightarrow> store_op \<Rightarrow> bool" where
  "writes_key k (Set key v) = (key = k)"
| "writes_key k (Delete key) = (key = k)"
| "writes_key k opn = False"

section \<open>ProactiveRefreshQueue: needsRefresh and isExpired\<close>

text \<open>
  Modelled from the spec: the declaration of \<open>ManagedAccount\<close> (\<open>./accounts\<close>) is not among
  the sources. The spec gives it an identity/index and an optional \<open>expires\<close> (absolute epoch
  milliseconds), which is all the two methods read of it. Times are kept as integers; the
  current time (\<open>Date.now()\<close>) is an argument. \<open>ProactiveRefreshConfig\<close> and its default are
  those of the source.
\<close>

record ManagedAccount =
  acc_index :: nat
  expires :: "int option"

record ProactiveRefreshConfig =
  enabled :: bool
  bufferSeconds :: int
  checkIntervalSeconds :: int

definition DEFAULT_PROACTIVE_REFRESH_CONFIG :: ProactiveRefreshConfig where
  "DEFAULT_PROACTIVE_REFRESH_CONFIG =
     \<lparr>enabled = True, bufferSeconds = 1800, checkIntervalSeconds = 300\<rparr>"

text \<open>\<open>!account.expires\<close>: the field is absent, or it is the number \<open>0\<close>.\<close>

definition no_expiry :: "ManagedAccount \<Rightarrow> bool" where
  "no_expiry account = (case expires account of None \<Rightarrow> True | Some e \<Rightarrow> e = 0)"

definition needsRefresh :: "ProactiveRefreshConfig \<Rightarrow> int \<Rightarrow> ManagedAccount \<Rightarrow> bool" where
  "needsRefresh config now account =
     (if no_expiry account then False
      else
        (let bufferMs = bufferSeconds config * 1000;
             refreshThreshold = now + bufferMs
         in the (expires account) \<le> refreshThreshold))"

definition isExpired :: "int \<Rightarrow> ManagedAccount \<Rightarrow> bool" where
  "isExpired now account =
     (if no_expiry account then False else the (expires account) \<le> now)"

definition getAccountsNeedingRefresh ::
  "ProactiveRefreshConfig \<Rightarrow> int \<Rightarrow> ManagedAccount list \<Rightarrow> ManagedAccount list" where
  "getAccountsNeedingRefresh config now accounts =
     filter (\<lambda>account. if isExpired now account then False else needsRefresh config now account)
       accounts"

section \<open>The line transform\<close>

text \<open>
  String operations of the source: \<open>startsWith('data:')\<close>, \<open>slice(5)\<close> (which is \<open>drop 5\<close>),
  \<open>trim()\<close>, \<open>split('\n')\<close> and \<open>join('\n')\<close>. \<open>trim\<close> removes the white space and line
  terminators of ECMAScript from both ends.
\<close>

definition startsWith :: "jsstring \<Rightarrow> jsstring \<Rightarrow> bool" where
  "startsWith s p = (take (length p) s = p)"

definition is_js_space :: "nat \<Rightarrow> bool" where
  "is_js_space c =
     (c \<in> set [9, 10, 11, 12, 13, 32, 160, 5760, 8232, 8233, 8239, 8287, 12288, 65279]
      \<or> (8192 \<le> c \<and> c \<le> 8202))"

definition trim :: "jsstring \<Rightarrow> jsstring" where
  "trim s = rev (dropWhile is_js_space (rev (dropWhile is_js_space s)))"

definition LF :: nat where
  "LF = 10"

fun split_lines :: "jsstring \<Rightarrow> jsstring list" where
  "split_lines [] = [[]]"
| "split_lines (c # cs) =
     (if c = LF then [] # split_lines cs
      else (case split_lines cs of
              [] \<Rightarrow> [[c]]
            | l # ls \<Rightarrow> (c # l) # ls))"

text \<open>
  \<open>JSON.parse\<close> and \<open>JSON.stringify\<close> belong to the platform and are parameters. \<open>None\<close>
  is a raised exception; \<open>JSON.stringify\<close> returns a string or \<open>undefined\<close>.
\<close>

record platform =
  JSON_parse :: "jsstring \<Rightarrow> jsval option"
  JSON_stringify :: "jsval \<Rightarrow> jsval option"

text \<open>
  Modelled from the spec: the declarations of \<open>StreamingOptions\<close> and \<open>StreamingCallbacks\<close>
  (\<open>./types\<close>) are not among the sources. The spec lists \<open>cacheSignatures\<close> (bool),
  \<open>signatureSessionKey\<close> (string), \<open>debugText\<close> (optional string) and the hooks
  \<open>onCacheSignature(sessionKey, text, signature)\<close>, \<open>onInjectDebug(response, text)\<close> and
  \<open>transformThinkingParts(response)\<close>, which are the fields the code reads. An absent
  optional field is \<open>None\<close>; an absent \<open>cacheSignatures\<close> is \<open>False\<close>. A callback is a
  function of its arguments; \<open>None\<close> as its result is a raised exception.
  \<open>onCacheSignature\<close> returns nothing: its calls are recorded in the state, and its result
  tells whether the call returned normally.
\<close>

record StreamingOptions =
  signatureSessionKey :: "jsstring option"
  debugText :: "jsstring option"
  cacheSignatures :: bool

record StreamingCallbacks =
  onCacheSignature :: "(jsstring \<Rightarrow> jsstring \<Rightarrow> jsval \<Rightarrow> bool) option"
  onInjectDebug :: "(jsval \<Rightarrow> jsstring \<Rightarrow> jsval option) option"
  transformThinkingParts :: "(jsval \<Rightarrow> jsval option) option"

text \<open>
  What the line transform mutates: the signature store, the thought buffer, the
  \<open>debugState.injected\<close> flag, and the calls made to \<open>onCacheSignature\<close> so far.
\<close>

record stream_state =
  sig_store :: SignatureStore
  thoughts :: ThoughtBuffer
  injected :: bool
  notified :: "(jsstring \<times> jsstring \<times> jsval) list"

definition fresh_state :: stream_state where
  "fresh_state =
     \<lparr>sig_store = createSignatureStore, thoughts = createThoughtBuffer,
      injected = False, notified = []\<rparr>"

subsection \<open>cacheThinkingSignaturesFromResponse\<close>

text \<open>
  Every function below returns the state it leaves and whether it returned normally
  (\<open>False\<close>: an exception left it, after the mutations made so far).

  \<open>cache_signature\<close> is the pair of statements
  \<open>onCacheSignature?.(key, text, signature); signatureStore.set(key, {text, signature})\<close>.
\<close>

definition cache_signature ::
  "(jsstring \<Rightarrow> jsstring \<Rightarrow> jsval \<Rightarrow> bool) option \<Rightarrow> jsstring \<Rightarrow> jsstring \<Rightarrow> jsval \<Rightarrow>
   stream_state \<Rightarrow> stream_state \<times> bool" where
  "cache_signature cb key fullText signature st =
     (let stored = \<lparr>st_text = fullText, st_signature = signature\<rparr> in
      case cb of
        None \<Rightarrow> (st\<lparr>sig_store := store_set (sig_store st) key stored\<rparr>, True)
      | Some f \<Rightarrow>
          (let st1 = st\<lparr>notified := notified st @ [(key, fullText, signature)]\<rparr> in
           if f key fullText signature
           then (st1\<lparr>sig_store := store_set (sig_store st1) key stored\<rparr>, True)
           else (st1, False)))"

text \<open>\<open>thoughtBuffer.get(index) ?? ''\<close>.\<close>

definition buffered :: "ThoughtBuffer \<Rightarrow> nat \<Rightarrow> jsstring" where
  "buffered buffer i = (case tb_get buffer i of None \<Rightarrow> [] | Some t \<Rightarrow> t)"

text \<open>
  The body of \<open>content.parts.forEach\<close>, for a part of the candidate at \<open>index\<close>. It raises
  when the part is \<open>null\<close> (\<open>p.thought\<close>) and when \<open>current + text\<close> cannot convert the
  text; the buffer is then not written.
\<close>

definition cache_part ::
  "(jsstring \<Rightarrow> jsstring \<Rightarrow> jsval \<Rightarrow> bool) option \<Rightarrow> jsstring \<Rightarrow> nat \<Rightarrow> jsval \<Rightarrow>
   stream_state \<Rightarrow> stream_state \<times> bool" where
  "cache_part cb key i p st =
     (case get_prop p (js ''thought'') of
        None \<Rightarrow> (st, False)
      | Some thought \<Rightarrow>
          (case (if thought = JBool True \<or> get_prop_opt p (js ''type'') = JStr (js ''thinking'')
                 then
                   (let text = js_or (js_or (get_prop_opt p (js ''text''))
                                            (get_prop_opt p (js ''thinking''))) (JStr [])
                    in if truthy text
                       then (case to_string text of
                               None \<Rightarrow> None
                             | Some shown \<Rightarrow>
                                 Some (st\<lparr>thoughts :=
                                        tb_set (thoughts st) i (buffered (thoughts st) i @ shown)\<rparr>))
                       else Some st)
                 else Some st) of
             None \<Rightarrow> (st, False)
           | Some st1 \<Rightarrow>
               (let signature = get_prop_opt p (js ''thoughtSignature'')
                in if truthy signature
                   then
                     (let fullText = buffered (thoughts st1) i
                      in if fullText \<noteq> [] then cache_signature cb key fullText signature st1
                         else (st1, True))
                   else (st1, True))))"

fun cache_parts ::
  "(jsstring \<Rightarrow> jsstring \<Rightarrow> jsval \<Rightarrow> bool) option \<Rightarrow> jsstring \<Rightarrow> nat \<Rightarrow> jsval list \<Rightarrow>
   stream_state \<Rightarrow> stream_state \<times> bool" where
  "cache_parts cb key i [] st = (st, True)"
| "cache_parts cb key i (p # ps) st =
     (case cache_part cb key i p st of
        (st1, True) \<Rightarrow> cache_parts cb key i ps st1
      | (st1, False) \<Rightarrow> (st1, False))"

text \<open>The body of \<open>resp.candidates.forEach\<close>.\<close>

definition cache_candidate ::
  "(jsstring \<Rightarrow> jsstring \<Rightarrow> jsval \<Rightarrow> bool) option \<Rightarrow> jsstring \<Rightarrow> nat \<Rightarrow> jsval \<Rightarrow>
   stream_state \<Rightarrow> stream_state \<times> bool" where
  "cache_candidate cb key i cand st =
     (let content = get_prop_opt cand (js ''content'') in
      if \<not> truthy content then (st, True)
      else
        (case get_prop_opt content (js ''parts'') of
           JArr parts \<Rightarrow> cache_parts cb key i parts st
         | _ \<Rightarrow> (st, True)))"

fun cache_candidates ::
  "(jsstring \<Rightarrow> jsstring \<Rightarrow> jsval \<Rightarrow> bool) option \<Rightarrow> jsstring \<Rightarrow> nat \<Rightarrow> jsval list \<Rightarrow>
   stream_state \<Rightarrow> stream_state \<times> bool" where
  "cache_candidates cb key i [] st = (st, True)"
| "cache_candidates cb key i (cand # cands) st =
     (case cache_candidate cb key i cand st of
        (st1, True) \<Rightarrow> cache_candidates cb key (Suc i) cands st1
      | (st1, False) \<Rightarrow> (st1, False))"

text \<open>
  The body of \<open>resp.content.forEach\<close>; \<open>thinkingText\<close> is the local variable of the loop,
  passed along with the state. It raises when \<open>thinkingText += \<dots>\<close> cannot convert the
  value.
\<close>

definition cache_block ::
  "(jsstring \<Rightarrow> jsstring \<Rightarrow> jsval \<Rightarrow> bool) option \<Rightarrow> jsstring \<Rightarrow> jsval \<Rightarrow>
   jsstring \<times> stream_state \<Rightarrow> (jsstring \<times> stream_state) \<times> bool" where
  "cache_block cb key b acc =
     (case acc of (thinkingText, st) \<Rightarrow>
        (case (if get_prop_opt b (js ''type'') = JStr (js ''thinking'')
               then (case to_string (js_or (js_or (get_prop_opt b (js ''thinking''))
                                                  (get_prop_opt b (js ''text''))) (JStr [])) of
                       None \<Rightarrow> None
                     | Some shown \<Rightarrow> Some (thinkingText @ shown))
               else Some thinkingText) of
           None \<Rightarrow> ((thinkingText, st), False)
         | Some thinkingText1 \<Rightarrow>
             (let signature = get_prop_opt b (js ''signature'')
              in if truthy signature \<and> thinkingText1 \<noteq> []
                 then (case cache_signature cb key thinkingText1 signature st of
                         (st1, ok) \<Rightarrow> ((thinkingText1, st1), ok))
                 else ((thinkingText1, st), True))))"

fun cache_blocks ::
  "(jsstring \<Rightarrow> jsstring \<Rightarrow> jsval \<Rightarrow> bool) option \<Rightarrow> jsstring \<Rightarrow> jsval list \<Rightarrow>
   jsstring \<times> stream_state \<Rightarrow> (jsstring \<times> stream_state) \<times> bool" where
  "cache_blocks cb key [] acc = (acc, True)"
| "cache_blocks cb key (b # bs) acc =
     (case cache_block cb key b acc of
        (acc1, True) \<Rightarrow> cache_blocks cb key bs acc1
      | (acc1, False) \<Rightarrow> (acc1, False))"

definition is_js_object :: "jsval \<Rightarrow> bool" where
  "is_js_object v = (case v of JArr xs \<Rightarrow> True | JObj kvs \<Rightarrow> True | _ \<Rightarrow> False)"

definition cacheThinkingSignaturesFromResponse ::
  "jsval \<Rightarrow> jsstring \<Rightarrow> (jsstring \<Rightarrow> jsstring \<Rightarrow> jsval \<Rightarrow> bool) option \<Rightarrow>
   stream_state \<Rightarrow> stream_state \<times> bool" where
  "cacheThinkingSignaturesFromResponse response key cb st =
     (if \<not> truthy response then (st, True)
      else if \<not> is_js_object response then (st, True)
      else
        (case (case get_prop_opt response (js ''candidates'') of
                 JArr cands \<Rightarrow> cache_candidates cb key 0 cands st
               | _ \<Rightarrow> (st, True)) of
           (st1, False) \<Rightarrow> (st1, False)
         | (st1, True) \<Rightarrow>
             (case get_prop_opt response (js ''content'') of
                JArr blocks \<Rightarrow>
                  (case cache_blocks cb key blocks ([], st1) of
                     ((thinkingText, st2), ok) \<Rightarrow> (st2, ok))
              | _ \<Rightarrow> (st1, True))))"

subsection \<open>transformSseLine and transformStreamingPayload\<close>

text \<open>
  \<open>options.cacheSignatures && options.signatureSessionKey\<close>, and \<open>options.debugText\<close> as a
  condition: an absent or empty string is falsy.
\<close>

definition truthy_string :: "jsstring option \<Rightarrow> bool" where
  "truthy_string s = (case s of None \<Rightarrow> False | Some t \<Rightarrow> t \<noteq> [])"

text \<open>
  The last two statements of the \<open>try\<close> block, shared by both transforms: apply
  \<open>transformThinkingParts\<close> when it is given, and build \<open>`data: ${JSON.stringify(transformed)}`\<close>.
  \<open>None\<close>: one of the statements raised.
\<close>

definition rewrite_line :: "platform \<Rightarrow> (jsval \<Rightarrow> jsval option) option \<Rightarrow> jsval \<Rightarrow> jsstring option" where
  "rewrite_line P transform response =
     (case (case transform of None \<Rightarrow> Some response | Some f \<Rightarrow> f response) of
        None \<Rightarrow> None
      | Some transformed \<Rightarrow>
          (case JSON_stringify P transformed of
             None \<Rightarrow> None
           | Some text \<Rightarrow>
               (case to_string text of
                  None \<Rightarrow> None
                | Some shown \<Rightarrow> Some (js ''data: '' @ shown))))"

text \<open>
  \<open>transformSseLine\<close>. Every exception raised inside the \<open>try\<close> block is caught and the
  function then returns \<open>line\<close>; the mutations made before the exception remain.
\<close>

definition transformSseLine ::
  "platform \<Rightarrow> jsstring \<Rightarrow> StreamingCallbacks \<Rightarrow> StreamingOptions \<Rightarrow> stream_state \<Rightarrow>
   jsstring \<times> stream_state" where
  "transformSseLine P line callbacks options st =
     (if \<not> startsWith line (js ''data:'') then (line, st)
      else
        (let json = trim (drop 5 line) in
         if json = [] then (line, st)
         else
           (case JSON_parse P json of
              None \<Rightarrow> (line, st)
            | Some parsed \<Rightarrow>
                (case get_prop parsed (js ''response'') of
                   None \<Rightarrow> (line, st)
                 | Some response0 \<Rightarrow>
                     if response0 = JUndefined then (line, st)
                     else
                       (case (if cacheSignatures options \<and> truthy_string (signatureSessionKey options)
                              then cacheThinkingSignaturesFromResponse response0
                                     (the (signatureSessionKey options)) (onCacheSignature callbacks) st
                              else (st, True)) of
                          (st1, False) \<Rightarrow> (line, st1)
                        | (st1, True) \<Rightarrow>
                            (case (if truthy_string (debugText options)
                                      \<and> onInjectDebug callbacks \<noteq> None \<and> \<not> injected st1
                                   then (case the (onInjectDebug callbacks) response0
                                                (the (debugText options)) of
                                           None \<Rightarrow> None
                                         | Some r \<Rightarrow> Some (r, st1\<lparr>injected := True\<rparr>))
                                   else Some (response0, st1)) of
                               None \<Rightarrow> (line, st1)
                             | Some (response, st2) \<Rightarrow>
                                 (case rewrite_line P (transformThinkingParts callbacks) response of
                                    None \<Rightarrow> (line, st2)
                                  | Some out \<Rightarrow> (out, st2))))))))"

text \<open>\<open>transformStreamingPayload\<close>: the function mapped over the lines, then the whole.\<close>

definition transform_payload_line ::
  "platform \<Rightarrow> (jsval \<Rightarrow> jsval option) option \<Rightarrow> jsstring \<Rightarrow> jsstring" where
  "transform_payload_line P transform line =
     (if \<not> startsWith line (js ''data:'') then line
      else
        (let json = trim (drop 5 line) in
         if json = [] then line
         else
           (case JSON_parse P json of
              None \<Rightarrow> line
            | Some parsed \<Rightarrow>
                (case get_prop parsed (js ''response'') of
                   None \<Rightarrow> line
                 | Some response \<Rightarrow>
                     if response \<noteq> JUndefined
                     then (case rewrite_line P transform response of
                             None \<Rightarrow> line
                           | Some out \<Rightarrow> out)
                     else line))))"

definition transformStreamingPayload ::
  "platform \<Rightarrow> jsstring \<Rightarrow> (jsval \<Rightarrow> jsval option) option \<Rightarrow> jsstring" where
  "transformStreamingPayload P payload transform =
     join_with [LF] (map (transform_payload_line P transform) (split_lines payload))"

section \<open>The streaming transformer\<close>

subsection \<open>TextDecoder and TextEncoder\<close>

text \<open>
  \<open>new TextDecoder()\<close> is the UTF-8 decoder of the Encoding standard, not fatal, removing a
  leading byte order mark. The standard's decoder handles one byte at a time and keeps its
  state between bytes; with \<open>{stream: true}\<close> the state is kept between calls as well.
  \<open>utf8_handler\<close> is the standard's handler for one byte; it returns the code points it
  emits, \<open>U+FFFD\<close> for an error. (\<open>b & 0x1F\<close> is written \<open>b mod 0x20\<close>, and
  \<open>(cp << 6) | (b & 0x3F)\<close> is written \<open>cp * 0x40 + b mod 0x40\<close>.)
\<close>

type_synonym byte = "8 word"

record utf8_decoder =
  code_point :: nat
  bytes_seen :: nat
  bytes_needed :: nat
  lower_boundary :: nat
  upper_boundary :: nat

definition utf8_initial :: utf8_decoder where
  "utf8_initial =
     \<lparr>code_point = 0, bytes_seen = 0, bytes_needed = 0,
      lower_boundary = 0x80, upper_boundary = 0xBF\<rparr>"

definition REPLACEMENT :: nat where
  "REPLACEMENT = 0xFFFD"

text \<open>A byte that arrives when no sequence is open.\<close>

definition utf8_lead :: "utf8_decoder \<Rightarrow> nat \<Rightarrow> utf8_decoder \<times> nat list" where
  "utf8_lead d b =
     (if b \<le> 0x7F then (d, [b])
      else if 0xC2 \<le> b \<and> b \<le> 0xDF
        then (d\<lparr>bytes_needed := 1, code_point := b mod 0x20\<rparr>, [])
      else if 0xE0 \<le> b \<and> b \<le> 0xEF
        then (d\<lparr>lower_boundary := (if b = 0xE0 then 0xA0 else lower_boundary d),
                upper_boundary := (if b = 0xED then 0x9F else upper_boundary d),
                bytes_needed := 2, code_point := b mod 0x10\<rparr>, [])
      else if 0xF0 \<le> b \<and> b \<le> 0xF4
        then (d\<lparr>lower_boundary := (if b = 0xF0 then 0x90 else lower_boundary d),
                upper_boundary := (if b = 0xF4 then 0x8F else upper_boundary d),
                bytes_needed := 3, code_point := b mod 0x8\<rparr>, [])
      else (d, [REPLACEMENT]))"

text \<open>
  A byte outside the boundaries closes the open sequence with an error and is handled again
  as the first byte of a new one.
\<close>

definition utf8_handler :: "utf8_decoder \<Rightarrow> nat \<Rightarrow> utf8_decoder \<times> nat list" where
  "utf8_handler d b =
     (if bytes_needed d = 0 then utf8_lead d b
      else if b < lower_boundary d \<or> upper_boundary d < b
        then (case utf8_lead utf8_initial b of (d', out) \<Rightarrow> (d', REPLACEMENT # out))
      else
        (let d1 = d\<lparr>lower_boundary := 0x80, upper_boundary := 0xBF,
                     code_point := code_point d * 0x40 + b mod 0x40,
                     bytes_seen := bytes_seen d + 1\<rparr>
         in if bytes_seen d1 \<noteq> bytes_needed d1 then (d1, [])
            else (utf8_initial, [code_point d1])))"

text \<open>The end of the input, met by \<open>decode()\<close> without \<open>stream\<close>: an open sequence is an error.\<close>

definition utf8_end :: "utf8_decoder \<Rightarrow> nat list" where
  "utf8_end d = (if bytes_needed d \<noteq> 0 then [REPLACEMENT] else [])"

text \<open>
  In every state the decoder reaches, the lower boundary is at least \<open>0x80\<close>: no ASCII
  byte continues a sequence.
\<close>

definition boundaries_ok :: "utf8_decoder \<Rightarrow> bool" where
  "boundaries_ok d = (0x80 \<le> lower_boundary d)"

text \<open>A code point as UTF-16 code units.\<close>

definition utf16_units :: "nat \<Rightarrow> jsstring" where
  "utf16_units cp =
     (if cp < 0x10000 then [cp]
      else [0xD800 + (cp - 0x10000) div 0x400, 0xDC00 + (cp - 0x10000) mod 0x400])"

record TextDecoder =
  utf8 :: utf8_decoder
  bom_seen :: bool

definition new_TextDecoder :: TextDecoder where
  "new_TextDecoder = \<lparr>utf8 = utf8_initial, bom_seen = False\<rparr>"

text \<open>The output of the decoder: the first code point is dropped when it is \<open>U+FEFF\<close>.\<close>

fun serialize :: "bool \<Rightarrow> nat list \<Rightarrow> bool \<times> jsstring" where
  "serialize seen [] = (seen, [])"
| "serialize seen (cp # cps) =
     (if \<not> seen \<and> cp = 0xFEFF then serialize True cps
      else (case serialize True cps of (seen', out) \<Rightarrow> (seen', utf16_units cp @ out)))"

definition decode_byte :: "TextDecoder \<Rightarrow> byte \<Rightarrow> TextDecoder \<times> jsstring" where
  "decode_byte D b =
     (case utf8_handler (utf8 D) (unat b) of
        (d', cps) \<Rightarrow>
          (case serialize (bom_seen D) cps of
             (seen', out) \<Rightarrow> (\<lparr>utf8 = d', bom_seen = seen'\<rparr>, out)))"

text \<open>\<open>decoder.decode(chunk, {stream: true})\<close> and the final \<open>decoder.decode()\<close>.\<close>

fun decode_stream :: "TextDecoder \<Rightarrow> byte list \<Rightarrow> TextDecoder \<times> jsstring" where
  "decode_stream D [] = (D, [])"
| "decode_stream D (b # bs) =
     (case decode_byte D b of
        (D1, out1) \<Rightarrow> (case decode_stream D1 bs of (D2, out2) \<Rightarrow> (D2, out1 @ out2)))"

definition decode_end :: "TextDecoder \<Rightarrow> jsstring" where
  "decode_end D = snd (serialize (bom_seen D) (utf8_end (utf8 D)))"

text \<open>
  \<open>encoder.encode(s)\<close>: the scalar values of the string (a surrogate pair is one, a lone
  surrogate becomes \<open>U+FFFD\<close>), each as UTF-8.
\<close>

definition is_surrogate :: "nat \<Rightarrow> bool" where
  "is_surrogate c = (0xD800 \<le> c \<and> c \<le> 0xDFFF)"

fun scalar_values :: "jsstring \<Rightarrow> nat list" where
  "scalar_values [] = []"
| "scalar_values [c] = [if is_surrogate c then REPLACEMENT else c]"
| "scalar_values (c # d # cs) =
     (if 0xD800 \<le> c \<and> c \<le> 0xDBFF \<and> 0xDC00 \<le> d \<and> d \<le> 0xDFFF
      then (0x10000 + (c - 0xD800) * 0x400 + (d - 0xDC00)) # scalar_values cs
      else (if is_surrogate c then REPLACEMENT else c) # scalar_values (d # cs))"

definition utf8_bytes :: "nat \<Rightarrow> byte list" where
  "utf8_bytes cp =
     (if cp < 0x80 then [of_nat cp]
      else if cp < 0x800 then [of_nat (0xC0 + cp div 0x40), of_nat (0x80 + cp mod 0x40)]
      else if cp < 0x10000
        then [of_nat (0xE0 + cp div 0x1000), of_nat (0x80 + cp div 0x40 mod 0x40),
              of_nat (0x80 + cp mod 0x40)]
      else [of_nat (0xF0 + cp div 0x40000), of_nat (0x80 + cp div 0x1000 mod 0x40),
            of_nat (0x80 + cp div 0x40 mod 0x40), of_nat (0x80 + cp mod 0x40)])"

definition encode :: "jsstring \<Rightarrow> byte list" where
  "encode s = concat (map utf8_bytes (scalar_values s))"

subsection \<open>createStreamingTransformer\<close>

text \<open>
  The closure of \<open>createStreamingTransformer\<close>: the decoder, the carry-over \<open>buffer\<close>, and
  the state of the line transform (the store given by the caller, a new thought buffer,
  \<open>debugState\<close>). \<open>transform\<close> and \<open>flush\<close> return the chunks they enqueue, in order.
\<close>

record transformer =
  decoder :: TextDecoder
  buffer :: jsstring
  lines_state :: stream_state

definition createStreamingTransformer :: "SignatureStore \<Rightarrow> transformer" where
  "createStreamingTransformer signatureStore =
     \<lparr>decoder = new_TextDecoder, buffer = [],
      lines_state = \<lparr>sig_store = signatureStore, thoughts = createThoughtBuffer,
                     injected = False, notified = []\<rparr>\<rparr>"

text \<open>The loop \<open>for (const line of lines)\<close> of \<open>transform\<close>.\<close>

fun transform_lines ::
  "platform \<Rightarrow> StreamingCallbacks \<Rightarrow> StreamingOptions \<Rightarrow> jsstring list \<Rightarrow> stream_state \<Rightarrow>
   stream_state \<times> byte list list" where
  "transform_lines P callbacks options [] st = (st, [])"
| "transform_lines P callbacks options (line # lines) st =
     (case transformSseLine P line callbacks options st of
        (transformedLine, st1) \<Rightarrow>
          (case transform_lines P callbacks options lines st1 of
             (st2, chunks) \<Rightarrow> (st2, encode (transformedLine @ [LF]) # chunks)))"

text \<open>\<open>lines.pop() || ''\<close> leaves \<open>butlast lines\<close> in \<open>lines\<close>.\<close>

definition transform ::
  "platform \<Rightarrow> StreamingCallbacks \<Rightarrow> StreamingOptions \<Rightarrow> byte list \<Rightarrow> transformer \<Rightarrow>
   transformer \<times> byte list list" where
  "transform P callbacks options chunk T =
     (case decode_stream (decoder T) chunk of
        (D, decoded) \<Rightarrow>
          (let lines = split_lines (buffer T @ decoded);
               carry = (if lines = [] then [] else last lines)
           in case transform_lines P callbacks options (butlast lines) (lines_state T) of
                (st, chunks) \<Rightarrow> (\<lparr>decoder = D, buffer = carry, lines_state = st\<rparr>, chunks)))"

definition flush ::
  "platform \<Rightarrow> StreamingCallbacks \<Rightarrow> StreamingOptions \<Rightarrow> transformer \<Rightarrow>
   transformer \<times> byte list list" where
  "flush P callbacks options T =
     (let buffer1 = buffer T @ decode_end (decoder T) in
      if buffer1 \<noteq> []
      then (case transformSseLine P buffer1 callbacks options (lines_state T) of
              (transformedLine, st) \<Rightarrow>
                (\<lparr>decoder = new_TextDecoder, buffer = buffer1, lines_state = st\<rparr>,
                 [encode transformedLine]))
      else (\<lparr>decoder = new_TextDecoder, buffer = buffer1, lines_state = lines_state T\<rparr>, []))"

text \<open>
  A whole stream: the chunks written to the transformer one after the other, then the
  stream's end. The result is the final closure and every chunk enqueued, in order.
\<close>

fun feed ::
  "platform \<Rightarrow> StreamingCallbacks \<Rightarrow> StreamingOptions \<Rightarrow> byte list list \<Rightarrow> transformer \<Rightarrow>
   transformer \<times> byte list list" where
  "feed P callbacks options [] T = (T, [])"
| "feed P callbacks options (chunk # chunks) T =
     (case transform P callbacks options chunk T of
        (T1, out1) \<Rightarrow>
          (case feed P callbacks options chunks T1 of (T2, out2) \<Rightarrow> (T2, out1 @ out2)))"

definition run_stream ::
  "platform \<Rightarrow> StreamingCallbacks \<Rightarrow> StreamingOptions \<Rightarrow> SignatureStore \<Rightarrow> byte list list \<Rightarrow>
   transformer \<times> byte list list" where
  "run_stream P callbacks options signatureStore chunks =
     (case feed P callbacks options chunks (createStreamingTransformer signatureStore) of
        (T1, out1) \<Rightarrow>
          (case flush P callbacks options T1 of (T2, out2) \<Rightarrow> (T2, out1 @ out2)))"

section \<open>Token refresh\<close>

subsection \<open>Retry policy\<close>

text \<open>
  The value of \<open>Math.random()\<close> is an argument of \<open>getRetryDelay\<close>. Numbers are real
  numbers here: the rounding of floating-point arithmetic is not modelled.
\<close>

definition MAX_RETRIES :: nat where
  "MAX_RETRIES = 3"

definition INITIAL_RETRY_DELAY_MS :: real where
  "INITIAL_RETRY_DELAY_MS = 100"

definition MAX_RETRY_DELAY_MS :: real where
  "MAX_RETRY_DELAY_MS = 2000"

definition getRetryDelay :: "nat \<Rightarrow> real \<Rightarrow> int" where
  "getRetryDelay attempt random =
     (let exponentialDelay = INITIAL_RETRY_DELAY_MS * 2 ^ attempt;
          cappedDelay = min exponentialDelay MAX_RETRY_DELAY_MS;
          jitter = cappedDelay * (0.8 + random * 0.4)
      in \<lfloor>jitter\<rfloor>)"

text \<open>
  What can be raised: an \<open>AntigravityTokenRefreshError\<close> with its fields, a \<open>TypeError\<close>,
  another \<open>Error\<close> (both with their message), or a value that is no \<open>Error\<close>. The \<open>code\<close>
  and the \<open>description\<close> are kept as the values found in the error payload, \<open>undefined\<close>
  when absent.
\<close>

record RefreshError =
  e_message :: jsstring
  e_code :: jsval
  e_description :: jsval
  e_status :: nat
  e_statusText :: jsstring

datatype js_error =
    AntigravityTokenRefreshError RefreshError
  | TypeError jsstring
  | Error jsstring
  | Thrown jsval

fun js_includes :: "jsstring \<Rightarrow> jsstring \<Rightarrow> bool" where
  "js_includes [] p = (p = [])"
| "js_includes (c # cs) p = (startsWith (c # cs) p \<or> js_includes cs p)"

fun isRetryableError :: "js_error \<Rightarrow> bool" where
  "isRetryableError (AntigravityTokenRefreshError e) =
     (if e_code e = JStr (js ''invalid_grant'') \<or> e_code e = JStr (js ''invalid_client'')
      then False
      else (e_status e \<ge> 500 \<or> e_status e = 429))"
| "isRetryableError (TypeError message) = True"
| "isRetryableError (Error message) = js_includes message (js ''fetch'')"
| "isRetryableError (Thrown v) = False"

subsection \<open>attemptTokenRefresh\<close>

text \<open>\<open>parseOAuthErrorPayload\<close> returns the pair of \<open>code\<close> and \<open>description\<close>.\<close>

definition text_value :: "jsstring option \<Rightarrow> jsval" where
  "text_value t = (case t of None \<Rightarrow> JUndefined | Some s \<Rightarrow> JStr s)"

definition is_string :: "jsval \<Rightarrow> bool" where
  "is_string v = (case v of JStr s \<Rightarrow> True | _ \<Rightarrow> False)"

definition parseOAuthErrorPayload :: "platform \<Rightarrow> jsstring option \<Rightarrow> jsval \<times> jsval" where
  "parseOAuthErrorPayload P text =
     (if \<not> truthy_string text then (JUndefined, JUndefined)
      else
        (case JSON_parse P (the text) of
           None \<Rightarrow> (JUndefined, JStr (the text))
         | Some payload \<Rightarrow>
             if \<not> truthy payload then (JUndefined, JStr (the text))
             else if \<not> is_js_object payload then (JUndefined, JStr (the text))
             else
               (let error = get_prop_opt payload (js ''error'');
                    error_description = get_prop_opt payload (js ''error_description'');
                    nested = (\<not> is_string error \<and> truthy error \<and> is_js_object error);
                    code = (if is_string error then error
                            else if nested
                              then js_coalesce (get_prop_opt error (js ''status''))
                                               (get_prop_opt error (js ''code''))
                            else JUndefined)
                in if nested \<and> \<not> truthy error_description
                        \<and> truthy (get_prop_opt error (js ''message''))
                     then (code, get_prop_opt error (js ''message''))
                   else if truthy error_description then (code, error_description)
                   else if truthy error \<and> is_js_object error
                        \<and> truthy (get_prop_opt error (js ''message''))
                     then (code, get_prop_opt error (js ''message''))
                   else (code, JUndefined))))"

text \<open>A status as the template literal prints it (decimal digits).\<close>

fun digits :: "nat \<Rightarrow> jsstring" where
  "digits n = (if n < 10 then [48 + n] else digits (n div 10) @ [48 + n mod 10])"

declare digits.simps [simp del]

text \<open>
  The answer of the token endpoint to one call of \<open>fetch\<close>: \<open>fetch\<close> raises, or it gives
  a response. Of a response the code reads \<open>ok\<close>, \<open>status\<close>, \<open>statusText\<close>, \<open>text()\<close>
  (\<open>None\<close> when it raises) and, when \<open>ok\<close>, \<open>json()\<close>: an exception (also for a payload on
  which reading a field raises), or an object of the type the code casts it to, except that
  \<open>access_token\<close> is any value: \<open>expires_in\<close> is a number of whole seconds (\<open>None\<close> when it
  is missing) and \<open>refresh_token\<close> a string when present.
\<close>

record http_response =
  ok :: bool
  status :: nat
  statusText :: jsstring
  body_text :: "jsstring option"

record token_payload =
  access_token :: jsval
  expires_in :: "int option"
  refresh_token :: "jsstring option"

datatype fetch_outcome =
    FetchFails js_error
  | Responds http_response "js_error + token_payload"

text \<open>
  Modelled from the spec: the declarations of \<open>RefreshParts\<close> and \<open>OAuthAuthDetails\<close>
  (\<open>./types\<close>) are not among the sources. The spec has a refresh token, a project id and a
  managed-project id in the one, and an access token, an absolute expiry and the serialized
  refresh blob in the other.
\<close>

record RefreshParts =
  refreshToken :: "jsstring option"
  projectId :: "jsstring option"
  managedProjectId :: "jsstring option"

record OAuthAuthDetails =
  refresh :: jsstring
  access :: "jsstring option"
  auth_expires :: "int option"

text \<open>
  The environment of a refresh: the platform, the endpoint's answer to the \<open>n\<close>-th call of
  \<open>fetch\<close>, \<open>Date.now()\<close> at that call and the \<open>n\<close>-th value of \<open>Math.random()\<close>, and three
  functions imported from \<open>./auth\<close>, which is not among the sources.
\<close>

record environment =
  json :: platform
  endpoint :: "nat \<Rightarrow> fetch_outcome"
  date_now :: "nat \<Rightarrow> int"
  math_random :: "nat \<Rightarrow> real"
  parseRefreshParts :: "jsstring \<Rightarrow> RefreshParts"
  formatRefreshParts :: "RefreshParts \<Rightarrow> jsstring"
  calculateTokenExpiry :: "int \<Rightarrow> int \<Rightarrow> int"

text \<open>
  What a refresh changes: how many calls of \<open>fetch\<close> and of \<open>Math.random()\<close> were made,
  the effects in the order they happened, and the two caches.
\<close>

datatype event =
    Fetch
  | Sleep int
  | InvalidateProjectContextCache jsstring
  | ClearCachedAuth jsstring
  | StoreCachedAuth OAuthAuthDetails

record world =
  fetched :: nat
  drawn :: nat
  events :: "event list"
  authCache :: "jsstring \<rightharpoonup> OAuthAuthDetails"
  projectContextCache :: "jsstring \<rightharpoonup> jsval"

text \<open>
  Modelled from the spec: \<open>invalidateProjectContextCache\<close> (\<open>./project\<close>),
  \<open>clearCachedAuth\<close> and \<open>storeCachedAuth\<close> (\<open>./cache\<close>) are not among the sources. The
  spec has the cached auth and the cached derived state "keyed by the old refresh blob":
  each cache is a map from the refresh blob, an entry is purged by removing its key, and
  a refreshed credential is stored under its own refresh blob.
\<close>

definition invalidateProjectContextCache :: "jsstring \<Rightarrow> world \<Rightarrow> world" where
  "invalidateProjectContextCache refreshBlob w =
     w\<lparr>events := events w @ [InvalidateProjectContextCache refreshBlob],
       projectContextCache := (projectContextCache w)(refreshBlob := None)\<rparr>"

definition clearCachedAuth :: "jsstring \<Rightarrow> world \<Rightarrow> world" where
  "clearCachedAuth refreshBlob w =
     w\<lparr>events := events w @ [ClearCachedAuth refreshBlob],
       authCache := (authCache w)(refreshBlob := None)\<rparr>"

definition storeCachedAuth :: "OAuthAuthDetails \<Rightarrow> world \<Rightarrow> world" where
  "storeCachedAuth auth w =
     w\<lparr>events := events w @ [StoreCachedAuth auth],
       authCache := (authCache w)(refresh auth \<mapsto> auth)\<rparr>"

text \<open>\<open>await sleep(delay)\<close>, called without an abort signal: it returns after the delay.\<close>

definition sleep :: "int \<Rightarrow> world \<Rightarrow> world" where
  "sleep ms w = w\<lparr>events := events w @ [Sleep ms]\<rparr>"

text \<open>
  The \<open>AntigravityTokenRefreshError\<close> built from a response that is not \<open>ok\<close>. \<open>None\<close>:
  \<open>[code, description ?? errorText].filter(Boolean).join(": ")\<close> raised a \<open>TypeError\<close>,
  because the code or the description cannot be converted to a string.
\<close>

definition refresh_failure :: "platform \<Rightarrow> http_response \<Rightarrow> RefreshError option" where
  "refresh_failure P response =
     (let errorText = body_text response;
          (code, description) = parseOAuthErrorPayload P errorText;
          described = js_coalesce description (text_value errorText)
      in case those (map to_string (filter truthy [code, described])) of
           None \<Rightarrow> None
         | Some shown \<Rightarrow>
             (let details = join_with (js '': '') shown;
                  baseMessage = js ''Antigravity token refresh failed ('' @ digits (status response)
                                  @ js '' '' @ statusText response @ js '')'';
                  message = (if details \<noteq> [] then baseMessage @ js '' - '' @ details
                             else baseMessage)
              in Some \<lparr>e_message = message, e_code = code, e_description = described,
                       e_status = status response, e_statusText = statusText response\<rparr>))"

text \<open>
  \<open>attemptTokenRefresh\<close>. When the error of a response that is not \<open>ok\<close> cannot be built,
  the \<open>TypeError\<close> leaves the function before the caches are purged.
\<close>

definition attemptTokenRefresh ::
  "environment \<Rightarrow> RefreshParts \<Rightarrow> OAuthAuthDetails \<Rightarrow> world \<Rightarrow> (js_error + OAuthAuthDetails) \<times> world" where
  "attemptTokenRefresh E parts auth w =
     (let startTime = date_now E (fetched w);
          w1 = w\<lparr>fetched := fetched w + 1, events := events w @ [Fetch]\<rparr>
      in case endpoint E (fetched w) of
           FetchFails e \<Rightarrow> (Inl e, w1)
         | Responds response body \<Rightarrow>
             if \<not> ok response then
               (case refresh_failure (json E) response of
                  None \<Rightarrow> (Inl (TypeError cannot_convert), w1)
                | Some failure \<Rightarrow>
                    (let w2 = (if e_code failure = JStr (js ''invalid_grant'')
                               then clearCachedAuth (refresh auth)
                                      (invalidateProjectContextCache (refresh auth) w1)
                               else w1)
                     in (Inl (AntigravityTokenRefreshError failure), w2)))
             else
               (case body of
                  Inl e \<Rightarrow> (Inl e, w1)
                | Inr payload \<Rightarrow>
                    if \<not> (truthy (access_token payload) \<and> is_string (access_token payload)) then
                      (Inl (AntigravityTokenRefreshError
                             \<lparr>e_message = js ''Token refresh response missing access_token'',
                              e_code = JUndefined, e_description = JUndefined,
                              e_status = 500, e_statusText = js ''Invalid Response''\<rparr>), w1)
                    else
                      (let expires_in1 =
                             (case expires_in payload of
                                None \<Rightarrow> 3600
                              | Some n \<Rightarrow> if n \<le> 0 then 3600 else n);
                           refreshedParts =
                             \<lparr>refreshToken =
                                (case refresh_token payload of
                                   None \<Rightarrow> refreshToken parts
                                 | Some t \<Rightarrow> Some t),
                              projectId = projectId parts,
                              managedProjectId = managedProjectId parts\<rparr>
                       in (Inr (auth\<lparr>access := (case access_token payload of
                                                  JStr token \<Rightarrow> Some token
                                                | _ \<Rightarrow> None),
                                     auth_expires := Some (calculateTokenExpiry E startTime expires_in1),
                                     refresh := formatRefreshParts E refreshedParts\<rparr>), w1))))"

subsection \<open>refreshAccessToken\<close>

text \<open>
  The \<open>for\<close> loop, from \<open>attempt\<close> on, with the code after the loop (\<open>after_retries\<close>,
  reached by \<open>break\<close> or when the loop condition fails). Of the log calls only
  \<open>String(error)\<close> matters: logging an error that is neither retryable nor classified
  converts it, which raises for a thrown value that cannot be converted.
\<close>

datatype 'a completion =
    Returns 'a
  | Throws js_error

definition after_retries :: "js_error option \<Rightarrow> world \<Rightarrow> OAuthAuthDetails option completion \<times> world" where
  "after_retries lastError w =
     (case lastError of
        Some (AntigravityTokenRefreshError e) \<Rightarrow> (Throws (AntigravityTokenRefreshError e), w)
      | _ \<Rightarrow> (Returns None, w))"

function refresh_loop ::
  "environment \<Rightarrow> RefreshParts \<Rightarrow> OAuthAuthDetails \<Rightarrow> nat \<Rightarrow> js_error option \<Rightarrow> world \<Rightarrow>
   OAuthAuthDetails option completion \<times> world" where
  "refresh_loop E parts auth attempt lastError w =
     (if attempt \<le> MAX_RETRIES then
        (case attemptTokenRefresh E parts auth w of
           (Inr updatedAuth, w1) \<Rightarrow>
             (Returns (Some updatedAuth),
              invalidateProjectContextCache (refresh auth) (storeCachedAuth updatedAuth w1))
         | (Inl error, w1) \<Rightarrow>
             if \<not> isRetryableError error then
               (case error of
                  AntigravityTokenRefreshError e \<Rightarrow> (Throws error, w1)
                | Thrown v \<Rightarrow>
                    (case to_string v of
                       None \<Rightarrow> (Throws (TypeError cannot_convert), w1)
                     | Some shown \<Rightarrow> (Returns None, w1))
                | _ \<Rightarrow> (Returns None, w1))
             else if attempt \<ge> MAX_RETRIES then after_retries (Some error) w1
             else
               (let delay = getRetryDelay attempt (math_random E (drawn w1));
                    w2 = w1\<lparr>drawn := drawn w1 + 1\<rparr>
                in refresh_loop E parts auth (attempt + 1) (Some error) (sleep delay w2)))
      else after_retries lastError w)"
  by pat_completeness auto
termination
  by (relation "measure (\<lambda>(E, parts, auth, attempt, lastError, w). Suc MAX_RETRIES - attempt)") auto

declare refresh_loop.simps [simp del]

definition refreshAccessToken ::
  "environment \<Rightarrow> OAuthAuthDetails \<Rightarrow> world \<Rightarrow> OAuthAuthDetails option completion \<times> world" where
  "refreshAccessToken E auth w =
     (let parts = parseRefreshParts E (refresh auth) in
      if \<not> truthy_string (refreshToken parts) then (Returns None, w)
      else refresh_loop E parts auth 0 None w)"


section \<open>Scenarios\<close>

text \<open>
  The response of the signature-caching scenario: candidate 0 has the thought parts \<open>"A"\<close>
  and \<open>"B"\<close> followed by a part carrying the signature; the other candidate has a part of
  plain text.
\<close>

definition thought_part :: "jsstring \<Rightarrow> jsval" where
  "thought_part t = JObj [(js ''thought'', JBool True), (js ''text'', JStr t)]"

definition signature_part :: "jsval \<Rightarrow> jsval" where
  "signature_part sig = JObj [(js ''thoughtSignature'', sig)]"

definition candidate_of :: "jsval list \<Rightarrow> jsval" where
  "candidate_of parts = JObj [(js ''content'', JObj [(js ''parts'', JArr parts)])]"

definition thinking_candidate :: "jsval \<Rightarrow> jsval" where
  "thinking_candidate sig =
     candidate_of [thought_part (js ''A''), thought_part (js ''B''), signature_part sig]"

definition plain_candidate :: jsval where
  "plain_candidate = candidate_of [JObj [(js ''text'', JStr (js ''hello''))]]"

definition scenario_response :: "jsval \<Rightarrow> jsval" where
  "scenario_response sig =
     JObj [(js ''candidates'', JArr [thinking_candidate sig, plain_candidate])]"

text \<open>The same two candidates in the other order.\<close>

definition swapped_response :: "jsval \<Rightarrow> jsval" where
  "swapped_response sig =
     JObj [(js ''candidates'', JArr [plain_candidate, thinking_candidate sig])]"

text \<open>
  The scenario's response with a \<open>null\<close> part before the thought parts of candidate 0, and
  a response whose one part is a thought with a signature and a text that is the object
  \<open>{"toString":1}\<close>.
\<close>

definition null_first_response :: "jsval \<Rightarrow> jsval" where
  "null_first_response sig =
     JObj [(js ''candidates'',
            JArr [candidate_of [JNull, thought_part (js ''A''), thought_part (js ''B''),
                                signature_part sig],
                  plain_candidate])]"

definition unprintable :: jsval where
  "unprintable = JObj [(js ''toString'', JNum False (js ''1''))]"

definition unprintable_text_response :: "jsval \<Rightarrow> jsval" where
  "unprintable_text_response sig =
     JObj [(js ''candidates'',
            JArr [candidate_of [JObj [(js ''thought'', JBool True), (js ''text'', unprintable),
                                      (js ''thoughtSignature'', sig)]]])]"

text \<open>Whether the callback, if one is given, returns normally on these arguments.\<close>

definition callback_returns ::
  "(jsstring \<Rightarrow> jsstring \<Rightarrow> jsval \<Rightarrow> bool) option \<Rightarrow> jsstring \<Rightarrow> jsstring \<Rightarrow> jsval \<Rightarrow> bool" where
  "callback_returns cb key t sig = (case cb of None \<Rightarrow> True | Some f \<Rightarrow> f key t sig)"

definition calls_of ::
  "(jsstring \<Rightarrow> jsstring \<Rightarrow> jsval \<Rightarrow> bool) option \<Rightarrow> jsstring \<Rightarrow> jsstring \<Rightarrow> jsval \<Rightarrow>
   (jsstring \<times> jsstring \<times> jsval) list" where
  "calls_of cb key t sig = (case cb of None \<Rightarrow> [] | Some f \<Rightarrow> [(key, t, sig)])"

text \<open>
  A platform for the examples: \<open>JSON.parse\<close> and \<open>JSON.stringify\<close> restricted to the few
  texts and values the examples use (\<open>JSON.parse\<close> raises on every other text).
\<close>

definition demo_platform :: platform where
  "demo_platform =
     \<lparr>JSON_parse = (\<lambda>s.
         if s = js ''{\"response\":{\"a\":1}}''
           then Some (JObj [(js ''response'', JObj [(js ''a'', JNum False (js ''1''))])])
         else if s = js ''{\"response\":\"'' @ [0xE9] @ js ''\"}''
           then Some (JObj [(js ''response'', JStr [0xE9])])
         else if s = js ''{\"other\":1}'' then Some (JObj [(js ''other'', JNum False (js ''1''))])
         else if s = js ''null'' then Some JNull
         else if s = js ''{\"error\":\"invalid_grant\"}''
           then Some (JObj [(js ''error'', JStr (js ''invalid_grant''))])
         else if s = js ''{\"error\":\"invalid_grant\",\"error_description\":{\"toString\":1}}''
           then Some (JObj [(js ''error'', JStr (js ''invalid_grant'')),
                            (js ''error_description'', unprintable)])
         else None),
      JSON_stringify = (\<lambda>v.
         if v = JObj [(js ''a'', JNum False (js ''1''))] then Some (JStr (js ''{\"a\":1}''))
         else if v = JStr [0xE9] then Some (JStr (js ''\"'' @ [0xE9] @ js ''\"''))
         else Some JUndefined)\<rparr>"

definition no_callbacks :: StreamingCallbacks where
  "no_callbacks = \<lparr>onCacheSignature = None, onInjectDebug = None, transformThinkingParts = None\<rparr>"

definition no_options :: StreamingOptions where
  "no_options = \<lparr>signatureSessionKey = None, debugText = None, cacheSignatures = False\<rparr>"

text \<open>
  An endpoint that gives the same response to every call, in an environment where the
  refresh blob is the refresh token itself and every random draw is \<open>1/2\<close>.
\<close>

definition demo_environment :: "http_response \<Rightarrow> environment" where
  "demo_environment response =
     \<lparr>json = demo_platform,
      endpoint = (\<lambda>n. Responds response (Inl (Error (js ''no token'')))),
      date_now = (\<lambda>n. 1000 * int n),
      math_random = (\<lambda>n. 1 / 2),
      parseRefreshParts = (\<lambda>blob. \<lparr>refreshToken = Some blob, projectId = None, managedProjectId = None\<rparr>),
      formatRefreshParts = (\<lambda>parts. case refreshToken parts of None \<Rightarrow> [] | Some t \<Rightarrow> t),
      calculateTokenExpiry = (\<lambda>start seconds. start + seconds * 1000)\<rparr>"

definition service_unavailable :: http_response where
  "service_unavailable =
     \<lparr>ok = False, status = 503, statusText = js ''Service Unavailable'',
      body_text = Some (js ''upstream unavailable'')\<rparr>"


definition revoked_503 :: http_response where
  "revoked_503 =
     \<lparr>ok = False, status = 503, statusText = js ''Service Unavailable'',
      body_text = Some (js ''{\"error\":\"invalid_grant\"}'')\<rparr>"


text \<open>The classified errors built from the first three answers.\<close>

definition unavailable_error :: RefreshError where
  "unavailable_error =
     \<lparr>e_message =
        js ''Antigravity token refresh failed (503 Service Unavailable) - upstream unavailable'',
      e_code = JUndefined, e_description = JStr (js ''upstream unavailable''),
      e_status = 503, e_statusText = js ''Service Unavailable''\<rparr>"


definition revoked_503_error :: RefreshError where
  "revoked_503_error =
     \<lparr>e_message =
        js ''Antigravity token refresh failed (503 Service Unavailable) - invalid_grant: {\"error\":\"invalid_grant\"}'',
      e_code = JStr (js ''invalid_grant''),
      e_description = JStr (js ''{\"error\":\"invalid_grant\"}''),
      e_status = 503, e_statusText = js ''Service Unavailable''\<rparr>"

definition demo_auth :: OAuthAuthDetails where
  "demo_auth = \<lparr>refresh = js ''rt'', access = None, auth_expires = None\<rparr>"

definition demo_world :: world where
  "demo_world =
     \<lparr>fetched = 0, drawn = 0, events = [],
      authCache = [js ''rt'' \<mapsto> demo_auth],
      projectContextCache = [js ''rt'' \<mapsto> JStr (js ''project'')]\<rparr>"

text \<open>The two codes of a permanent credential error.\<close>

definition is_permanent_code :: "jsval \<Rightarrow> bool" where
  "is_permanent_code code =
     (code = JStr (js ''invalid_grant'') \<or> code = JStr (js ''invalid_client''))"

text \<open>
  The mean of the delay over \<open>n\<close> equally likely values \<open>0/n, \<dots>, (n-1)/n\<close> of the random
  draw.
\<close>

definition mean_delay :: "nat \<Rightarrow> nat \<Rightarrow> real" where
  "mean_delay n attempt =
     (\<Sum>k<n. real_of_int (getRetryDelay attempt (real k / real n))) / real n"

text \<open>The capped exponential delay, before the jitter.\<close>

definition capped_delay :: "nat \<Rightarrow> real" where
  "capped_delay attempt = min (INITIAL_RETRY_DELAY_MS * 2 ^ attempt) MAX_RETRY_DELAY_MS"

text \<open>
  The bytes of the line \<open>data: {"response":"\<dots>"}\<close> whose string is the one character
  \<open>U+00E9\<close> (in UTF-8 the two bytes \<open>C3 A9\<close>), with its newline, cut between these two
  bytes.
\<close>

definition example_head :: "byte list" where
  "example_head = encode (js ''data: {\"response\":\"'') @ [0xC3]"

definition example_tail :: "byte list" where
  "example_tail = [0xA9] @ encode (js ''\"}'' @ [LF])"

section \<open>Properties of the stores\<close>

lemma run_store_fst_step:
  "fst (run_store store born ((now, opn) # rest)) =
   fst (run_store (fst (store_call store opn))
         (case opn of Set key v \<Rightarrow> born(key \<mapsto> now) | _ \<Rightarrow> born) rest)"
  by (simp add: Let_def split: prod.splits)

lemma store_call_keeps:
  "\<not> writes_key k opn \<Longrightarrow> fst (store_call store opn) k = store k"
  by (cases opn) (auto simp: store_set_def store_delete_def)

lemma run_store_keeps:
  "list_all (\<lambda>c. \<not> writes_key k (snd c)) calls \<Longrightarrow>
   fst (run_store store born calls) k = store k"
proof (induction calls arbitrary: store born)
  case Nil
  then show ?case by simp
next
  case (Cons c calls)
  obtain now opn where c: "c = (now, opn)" by (cases c)
  from Cons.prems c have here: "\<not> writes_key k opn"
    and later: "list_all (\<lambda>c. \<not> writes_key k (snd c)) calls"
    by simp_all
  show ?case
    unfolding c run_store_fst_step
    by (simp add: Cons.IH [OF later] store_call_keeps [OF here])
qed

lemma stale_read_at_any_ttl:
  "\<not> never_stale ttl [(0, Set k v), (Suc ttl, Get k)]"
  by (simp add: never_stale_def createSignatureStore_def store_get_def store_set_def)

text \<open>
  C1 (as stated, refuted). With a TTL of one hour, an entry set at time 0 is returned by a
  \<open>get\<close> made one millisecond after the hour: the store never expires an entry.
  (\<open>stale_read_at_any_ttl\<close> shows the same for every TTL.)
\<close>

theorem C1_stale_entry_returned:
  "\<not> never_stale 3600000
       [(0, Set (js ''session'') \<lparr>st_text = js ''AB'', st_signature = JStr (js ''sig'')\<rparr>),
        (3600001, Get (js ''session''))]"
  by (simp add: never_stale_def createSignatureStore_def store_get_def store_set_def)

text \<open>
  C1 (amended). The store is a plain map that neither expires nor evicts: an entry set under
  a key is what \<open>get\<close> returns for that key after any sequence of calls, made at any times,
  among which none sets or deletes that key; and \<open>set\<close> overwrites, so a session key never
  has more than the one entry last set.
\<close>

theorem C1_entry_kept_until_overwritten:
  assumes "list_all (\<lambda>c. \<not> writes_key k (snd c)) calls"
  shows "store_get (fst (run_store (store_set store k v) born calls)) k = Some v \<and>
         store_get (store_set (store_set store k v) k v') k = Some v'"
  using run_store_keeps [OF assms, of "store_set store k v" born]
  by (simp add: store_get_def store_set_def)

theorem C1_entry_kept_witness:
  "store_get (fst (run_store
       (store_set createSignatureStore (js ''s'') \<lparr>st_text = js ''AB'', st_signature = JStr (js ''sig'')\<rparr>)
       Map.empty
       [(5, Has (js ''s'')), (7, Set (js ''t'') \<lparr>st_text = js ''C'', st_signature = JNull\<rparr>),
        (99999999, Delete (js ''u''))])) (js ''s'')
   = Some \<lparr>st_text = js ''AB'', st_signature = JStr (js ''sig'')\<rparr>"
  by (rule C1_entry_kept_until_overwritten [THEN conjunct1]) (simp add: js_def)

text \<open>
  C2 (as stated, refuted). After \<open>set(0, "A")\<close> and \<open>set(0, "B")\<close>, \<open>get(0)\<close> is \<open>"B"\<close>, not
  \<open>"AB"\<close>.
\<close>

theorem C2_set_does_not_append:
  "tb_get (tb_set (tb_set createThoughtBuffer 0 (js ''A'')) 0 (js ''B'')) 0
     \<noteq> Some (js ''A'' @ js ''B'')"
  by (simp add: tb_get_def tb_set_def js_def)

text \<open>
  C2 (amended). \<open>ThoughtBuffer.set\<close> replaces: after \<open>set(i, t1)\<close> followed by
  \<open>set(i, t2)\<close>, \<open>get(i)\<close> returns \<open>t2\<close>.
\<close>

theorem C2_set_replaces:
  "tb_get (tb_set (tb_set thoughtBuffer i t1) i t2) i = Some t2"
  by (simp add: tb_get_def tb_set_def)

section \<open>Properties of needsRefresh and isExpired\<close>

text \<open>
  C7 (as stated, refuted). An account whose \<open>expires\<close> is set to \<open>0\<close> does not need refresh,
  although \<open>expires\<close> is set and \<open>now + bufferSeconds*1000 >= expires\<close>.
\<close>

theorem C7_expires_zero:
  "\<not> (needsRefresh DEFAULT_PROACTIVE_REFRESH_CONFIG 1000 \<lparr>acc_index = 0, expires = Some 0\<rparr>
       \<longleftrightarrow>
       (expires \<lparr>acc_index = 0, expires = Some 0\<rparr> \<noteq> None \<and>
        1000 + bufferSeconds DEFAULT_PROACTIVE_REFRESH_CONFIG * 1000
          \<ge> the (expires \<lparr>acc_index = 0, expires = Some 0\<rparr>)))"
  by (simp add: needsRefresh_def no_expiry_def DEFAULT_PROACTIVE_REFRESH_CONFIG_def)

text \<open>
  C7 (amended). \<open>needsRefresh(account)\<close> is true if and only if \<open>account.expires\<close> is set,
  is not \<open>0\<close>, and \<open>now + bufferSeconds*1000 >= expires\<close>; \<open>isExpired(account)\<close> is true if
  and only if \<open>expires\<close> is set, is not \<open>0\<close>, and \<open>now >= expires\<close>. Both are false when
  \<open>expires\<close> is unset, and both comparisons are inclusive.
\<close>

theorem C7_needsRefresh_isExpired:
  "(needsRefresh config now account \<longleftrightarrow>
      (\<exists>e. expires account = Some e \<and> e \<noteq> 0 \<and> now + bufferSeconds config * 1000 \<ge> e)) \<and>
   (isExpired now account \<longleftrightarrow> (\<exists>e. expires account = Some e \<and> e \<noteq> 0 \<and> now \<ge> e)) \<and>
   \<not> needsRefresh config now (account\<lparr>expires := None\<rparr>) \<and>
   \<not> isExpired now (account\<lparr>expires := None\<rparr>) \<and>
   (needsRefresh config now (account\<lparr>expires := Some (now + bufferSeconds config * 1000)\<rparr>)
      \<longleftrightarrow> now + bufferSeconds config * 1000 \<noteq> 0)"
  by (auto simp: needsRefresh_def isExpired_def no_expiry_def Let_def split: option.splits)

section \<open>Properties of the token refresh\<close>

lemma js_Nil [simp]: "js [] = []"
  by (simp add: js_def)

lemma js_Cons [simp]: "js (c # cs) = of_char c # js cs"
  by (simp add: js_def)

lemma refresh_failure_status:
  "refresh_failure P response = Some failure \<Longrightarrow> e_status failure = status response"
  by (auto simp: refresh_failure_def Let_def split: prod.splits option.splits)

lemma world_updates_commute:
  "(w :: world)\<lparr>drawn := d, fetched := f, events := e\<rparr> = w\<lparr>fetched := f, drawn := d, events := e\<rparr>"
  by (cases w) simp

text \<open>One pass of the loop on an attempt that raises a retryable error.\<close>

lemma loop_retry:
  assumes "attempt < MAX_RETRIES"
    and "attemptTokenRefresh E parts auth w = (Inl err, w1)"
    and "isRetryableError err"
  shows "refresh_loop E parts auth attempt lastError w =
         refresh_loop E parts auth (attempt + 1) (Some err)
           (sleep (getRetryDelay attempt (math_random E (drawn w1))) (w1\<lparr>drawn := drawn w1 + 1\<rparr>))"
  using assms
  by (subst refresh_loop.simps) (simp add: Let_def del: isRetryableError.simps)

lemma loop_last:
  assumes "attempt = MAX_RETRIES"
    and "attemptTokenRefresh E parts auth w = (Inl err, w1)"
    and "isRetryableError err"
  shows "refresh_loop E parts auth attempt lastError w = after_retries (Some err) w1"
  using assms
  by (subst refresh_loop.simps) (simp del: isRetryableError.simps)

text \<open>
  When every attempt raises a retryable error without another effect, the loop makes four
  attempts, sleeps between them, and ends in the code after the loop with the last error.
\<close>

lemma retries_exhausted:
  assumes attempts: "\<And>w. attemptTokenRefresh E parts auth w =
             (Inl (err (fetched w)), w\<lparr>fetched := fetched w + 1, events := events w @ [Fetch]\<rparr>)"
    and retryable: "\<And>n. isRetryableError (err n)"
  shows "refresh_loop E parts auth 0 None w =
     after_retries (Some (err (fetched w + 3)))
       (w\<lparr>fetched := fetched w + 4,
          drawn := drawn w + 3,
          events := events w @
            [Fetch, Sleep (getRetryDelay 0 (math_random E (drawn w))),
             Fetch, Sleep (getRetryDelay 1 (math_random E (drawn w + 1))),
             Fetch, Sleep (getRetryDelay 2 (math_random E (drawn w + 2))),
             Fetch]\<rparr>)"
proof -
  let ?d0 = "Sleep (getRetryDelay 0 (math_random E (drawn w)))"
  let ?d1 = "Sleep (getRetryDelay 1 (math_random E (drawn w + 1)))"
  let ?d2 = "Sleep (getRetryDelay 2 (math_random E (drawn w + 2)))"
  let ?w1 = "w\<lparr>fetched := fetched w + 1, drawn := drawn w + 1,
               events := events w @ [Fetch, ?d0]\<rparr>"
  let ?w2 = "w\<lparr>fetched := fetched w + 2, drawn := drawn w + 2,
               events := events w @ [Fetch, ?d0, Fetch, ?d1]\<rparr>"
  let ?w3 = "w\<lparr>fetched := fetched w + 3, drawn := drawn w + 3,
               events := events w @ [Fetch, ?d0, Fetch, ?d1, Fetch, ?d2]\<rparr>"
  have lt: "(0::nat) < MAX_RETRIES" "(1::nat) < MAX_RETRIES" "(2::nat) < MAX_RETRIES"
    and eq: "(3::nat) = MAX_RETRIES"
    by (simp_all add: MAX_RETRIES_def)
  have "refresh_loop E parts auth 0 None w =
          refresh_loop E parts auth 1 (Some (err (fetched w))) ?w1"
    using loop_retry [OF lt(1) attempts retryable, of None w]
    by (simp add: sleep_def eval_nat_numeral)
  also have "\<dots> = refresh_loop E parts auth 2 (Some (err (fetched w + 1))) ?w2"
    using loop_retry [OF lt(2) attempts retryable, of "Some (err (fetched w))" ?w1]
    by (simp add: sleep_def eval_nat_numeral)
  also have "\<dots> = refresh_loop E parts auth 3 (Some (err (fetched w + 2))) ?w3"
    using loop_retry [OF lt(3) attempts retryable, of "Some (err (fetched w + 1))" ?w2]
    by (simp add: sleep_def eval_nat_numeral)
  also have "\<dots> = after_retries (Some (err (fetched w + 3)))
      (w\<lparr>fetched := fetched w + 4, drawn := drawn w + 3,
         events := events w @ [Fetch, ?d0, Fetch, ?d1, Fetch, ?d2, Fetch]\<rparr>)"
    using loop_last [OF eq attempts retryable, of "Some (err (fetched w + 2))" ?w3]
    by (simp add: eval_nat_numeral world_updates_commute)
  finally show ?thesis .
qed

text \<open>
  C4 (amended). Given \<open>MAX_RETRIES = 3\<close>, a refresh blob that holds a refresh token, and a
  token endpoint that answers every attempt with HTTP 503 and an error payload from which
  the classified error is built (its code and description convert to strings) with a code
  that is neither \<open>invalid_grant\<close> nor \<open>invalid_client\<close>: \<open>refreshAccessToken\<close> calls the
  endpoint exactly 4 times (attempts 0 through 3), sleeps the backoff delay of attempts 0,
  1 and 2 between consecutive attempts, and then raises the classified error of the last
  attempt; the caches are left as they were.
\<close>

theorem C4_retries_exhausted:
  assumes token: "truthy_string (refreshToken (parseRefreshParts E (refresh auth)))"
    and answers: "\<And>n. endpoint E n = Responds (response n) (body n)"
    and failed: "\<And>n. \<not> ok (response n)"
    and unavailable: "\<And>n. status (response n) = 503"
    and built: "\<And>n. refresh_failure (json E) (response n) = Some (failure n)"
    and transient: "\<And>n. \<not> is_permanent_code (e_code (failure n))"
  shows "refreshAccessToken E auth w =
     (Throws (AntigravityTokenRefreshError (failure (fetched w + 3))),
      w\<lparr>fetched := fetched w + 4,
        drawn := drawn w + 3,
        events := events w @
          [Fetch, Sleep (getRetryDelay 0 (math_random E (drawn w))),
           Fetch, Sleep (getRetryDelay 1 (math_random E (drawn w + 1))),
           Fetch, Sleep (getRetryDelay 2 (math_random E (drawn w + 2))),
           Fetch]\<rparr>)"
proof -
  let ?parts = "parseRefreshParts E (refresh auth)"
  let ?err = "\<lambda>n. AntigravityTokenRefreshError (failure n)"
  have attempts: "attemptTokenRefresh E ?parts auth w' =
      (Inl (?err (fetched w')), w'\<lparr>fetched := fetched w' + 1, events := events w' @ [Fetch]\<rparr>)"
    for w'
    using transient [of "fetched w'"]
    by (simp add: attemptTokenRefresh_def answers failed built is_permanent_code_def Let_def)
  have retryable: "isRetryableError (?err n)" for n
    using transient [of n] refresh_failure_status [OF built [of n]] unavailable [of n]
    by (simp add: is_permanent_code_def)
  have "refreshAccessToken E auth w = refresh_loop E ?parts auth 0 None w"
    using token by (simp add: refreshAccessToken_def Let_def)
  also note retries_exhausted [of E ?parts auth ?err w, OF attempts retryable]
  finally show ?thesis
    by (simp add: after_retries_def)
qed

text \<open>
  C4, at an endpoint that always answers \<open>503 Service Unavailable\<close> with a body that is
  not JSON; every random draw is \<open>1/2\<close>, so the delays are 100, 200 and 400 ms.
\<close>

lemma unavailable_error_built:
  "refresh_failure demo_platform service_unavailable = Some unavailable_error"
  by (simp add: refresh_failure_def service_unavailable_def demo_platform_def
      parseOAuthErrorPayload_def truthy_string_def js_coalesce_def nullish_def text_value_def
      Let_def digits.simps unavailable_error_def)

theorem C4_witness:
  "refreshAccessToken (demo_environment service_unavailable) demo_auth demo_world =
     (Throws (AntigravityTokenRefreshError unavailable_error),
      demo_world\<lparr>fetched := 4, drawn := 3,
        events := [Fetch, Sleep 100, Fetch, Sleep 200, Fetch, Sleep 400, Fetch]\<rparr>)"
proof -
  let ?E = "demo_environment service_unavailable"
  have token: "truthy_string (refreshToken (parseRefreshParts ?E (refresh demo_auth)))"
    by (simp add: demo_environment_def demo_auth_def truthy_string_def)
  have answers: "endpoint ?E n = Responds service_unavailable (Inl (Error (js ''no token'')))"
    for n
    by (simp add: demo_environment_def)
  have failed: "\<not> ok service_unavailable" and unavailable: "status service_unavailable = 503"
    by (simp_all add: service_unavailable_def)
  have built: "refresh_failure (json ?E) service_unavailable = Some unavailable_error"
    using unavailable_error_built by (simp add: demo_environment_def)
  have transient: "\<not> is_permanent_code (e_code unavailable_error)"
    by (simp add: is_permanent_code_def unavailable_error_def)
  show ?thesis
    using C4_retries_exhausted [of ?E demo_auth "\<lambda>n. service_unavailable"
        "\<lambda>n. Inl (Error (js ''no token''))" "\<lambda>n. unavailable_error" demo_world,
        OF token answers failed unavailable built transient]
    by (simp add: demo_environment_def demo_world_def getRetryDelay_def
        INITIAL_RETRY_DELAY_MS_def MAX_RETRY_DELAY_MS_def)
qed

text \<open>
  C4 (as stated, refuted). The endpoint answers every attempt with HTTP 503 and the body
  \<open>{"error":"invalid_grant"}\<close>: one attempt is made, not four, and nothing is slept. The
  code is classified before the status is looked at.
\<close>

lemma revoked_503_error_built:
  "refresh_failure demo_platform revoked_503 = Some revoked_503_error"
  by (simp add: refresh_failure_def revoked_503_def demo_platform_def parseOAuthErrorPayload_def
      truthy_string_def js_coalesce_def nullish_def text_value_def Let_def digits.simps
      is_js_object_def get_prop_opt_def is_string_def revoked_503_error_def)

theorem C4_permanent_code_not_retried:
  "status revoked_503 = 503 \<and>
   refreshAccessToken (demo_environment revoked_503) demo_auth demo_world =
     (Throws (AntigravityTokenRefreshError revoked_503_error),
      demo_world\<lparr>fetched := 1,
        events := [Fetch, InvalidateProjectContextCache (js ''rt''), ClearCachedAuth (js ''rt'')],
        projectContextCache := Map.empty, authCache := Map.empty\<rparr>)"
proof -
  have st: "status revoked_503 = 503" "\<not> ok revoked_503" by (simp_all add: revoked_503_def)
  have code: "e_code revoked_503_error = JStr (js ''invalid_grant'')"
    by (simp add: revoked_503_error_def)
  show ?thesis
    by (simp add: st refreshAccessToken_def demo_environment_def demo_auth_def
        truthy_string_def refresh_loop.simps [of _ _ _ 0] attemptTokenRefresh_def Let_def
        revoked_503_error_built code clearCachedAuth_def invalidateProjectContextCache_def
        demo_world_def)
qed




section \<open>Properties of cacheThinkingSignaturesFromResponse\<close>

lemmas scenario_defs = scenario_response_def swapped_response_def null_first_response_def
  unprintable_text_response_def unprintable_def thinking_candidate_def plain_candidate_def
  candidate_of_def signature_part_def thought_part_def

lemmas cache_defs = cacheThinkingSignaturesFromResponse_def is_js_object_def get_prop_opt_def
  cache_candidate_def cache_part_def js_or_def buffered_def tb_get_def tb_set_def
  cache_signature_def store_set_def store_get_def Let_def

text \<open>
  The scenario from any state, for a signature that is truthy and a callback that returns
  normally: the texts are appended to what the buffer holds at the candidate's index, and
  the signature is stored with the whole accumulated text. The same with the candidates in
  the other order, at index 1.
\<close>

lemma scenario_run:
  assumes "truthy sig" and "callback_returns cb key (buffered (thoughts st) 0 @ js ''AB'') sig"
  shows "cacheThinkingSignaturesFromResponse (scenario_response sig) key cb st =
     (st\<lparr>thoughts := (thoughts st)(0 \<mapsto> buffered (thoughts st) 0 @ js ''AB''),
         notified := notified st @ calls_of cb key (buffered (thoughts st) 0 @ js ''AB'') sig,
         sig_store := (sig_store st)(key \<mapsto>
            \<lparr>st_text = buffered (thoughts st) 0 @ js ''AB'', st_signature = sig\<rparr>)\<rparr>, True)"
  using assms
  by (cases cb) (simp_all add: scenario_defs cache_defs callback_returns_def calls_of_def)

lemma swapped_run:
  assumes "truthy sig" and "callback_returns cb key (buffered (thoughts st) 1 @ js ''AB'') sig"
  shows "cacheThinkingSignaturesFromResponse (swapped_response sig) key cb st =
     (st\<lparr>thoughts := (thoughts st)(1 \<mapsto> buffered (thoughts st) 1 @ js ''AB''),
         notified := notified st @ calls_of cb key (buffered (thoughts st) 1 @ js ''AB'') sig,
         sig_store := (sig_store st)(key \<mapsto>
            \<lparr>st_text = buffered (thoughts st) 1 @ js ''AB'', st_signature = sig\<rparr>)\<rparr>, True)"
  using assms
  by (cases cb) (simp_all add: scenario_defs cache_defs callback_returns_def calls_of_def)

text \<open>
  A part after which the accumulated text of its candidate is empty changes neither the
  store nor the calls of the callback.
\<close>

lemma cache_part_without_text:
  assumes "buffered (thoughts (fst (cache_part cb key i p st))) i = []"
  shows "sig_store (fst (cache_part cb key i p st)) = sig_store st \<and>
         notified (fst (cache_part cb key i p st)) = notified st"
  using assms
  by (auto simp: cache_part_def Let_def cache_signature_def split: option.splits if_splits)

text \<open>
  A part that raises leaves the state as it was: nothing of it is buffered or stored.
\<close>

lemma cache_part_raises:
  assumes "get_prop p (js ''thought'') = None"
  shows "cache_part cb key i p st = (st, False)"
  using assms by (simp add: cache_part_def)

text \<open>
  An exception in one part ends the scan of the parts, and of the candidates: the parts and
  candidates after it are not looked at.
\<close>

lemma cache_parts_stop:
  assumes "cache_part cb key i p st = (st1, False)"
  shows "cache_parts cb key i (p # ps) st = (st1, False)"
  using assms by simp

lemma cache_candidates_stop:
  assumes "cache_candidate cb key i cand st = (st1, False)"
  shows "cache_candidates cb key i (cand # cands) st = (st1, False)"
  using assms by simp

text \<open>
  C6 (the code departs from it). From a new thought buffer and an empty store, the
  scenario's response leaves \<open>"AB"\<close> at index 0 and the entry \<open>{text: "AB", signature}\<close>
  under the session key, as the claim says. With a \<open>null\<close> part before the same parts,
  reading \<open>p.thought\<close> raises: the thought parts and the signature after it, and candidate
  1, are never visited, nothing is buffered or stored, and the exception leaves the
  function. The same happens for a thought part whose text is the object
  \<open>{"toString":1}\<close>, where \<open>current + text\<close> raises before the signature of that part is
  looked at.
\<close>

theorem C6_null_part_ends_scan:
  "cacheThinkingSignaturesFromResponse (scenario_response (JStr (js ''sig''))) (js ''session'')
       None fresh_state =
     (\<lparr>sig_store = [js ''session'' \<mapsto> \<lparr>st_text = js ''AB'', st_signature = JStr (js ''sig'')\<rparr>],
       thoughts = [0 \<mapsto> js ''AB''], injected = False, notified = []\<rparr>, True)
   \<and> cacheThinkingSignaturesFromResponse (null_first_response (JStr (js ''sig'')))
       (js ''session'') None fresh_state = (fresh_state, False)
   \<and> cacheThinkingSignaturesFromResponse (unprintable_text_response (JStr (js ''sig'')))
       (js ''session'') None fresh_state = (fresh_state, False)"
proof (intro conjI)
  have fresh: "buffered (thoughts fresh_state) i = []" for i
    by (simp add: fresh_state_def buffered_def tb_get_def createThoughtBuffer_def)
  show "cacheThinkingSignaturesFromResponse (scenario_response (JStr (js ''sig'')))
       (js ''session'') None fresh_state =
     (\<lparr>sig_store = [js ''session'' \<mapsto> \<lparr>st_text = js ''AB'', st_signature = JStr (js ''sig'')\<rparr>],
       thoughts = [0 \<mapsto> js ''AB''], injected = False, notified = []\<rparr>, True)"
    using scenario_run [of "JStr (js ''sig'')" None "js ''session''" fresh_state]
    by (simp add: fresh callback_returns_def calls_of_def)
       (simp add: fresh_state_def createSignatureStore_def createThoughtBuffer_def)
  show "cacheThinkingSignaturesFromResponse (null_first_response (JStr (js ''sig'')))
       (js ''session'') None fresh_state = (fresh_state, False)"
    by (simp add: scenario_defs cache_defs)
  show "cacheThinkingSignaturesFromResponse (unprintable_text_response (JStr (js ''sig'')))
       (js ''session'') None fresh_state = (fresh_state, False)"
    by (simp add: scenario_defs cache_defs)
qed

section \<open>Properties of the line transforms\<close>

lemmas line_defs = transformSseLine_def transform_payload_line_def rewrite_line_def startsWith_def
  trim_def is_js_space_def truthy_string_def Let_def

text \<open>
  C8. \<open>transformSseLine\<close> returns the line unchanged, and changes no state, when the line
  does not start with \<open>data:\<close>, when the payload after the marker is empty once trimmed,
  when \<open>JSON.parse\<close> raises on the payload, and when the parsed payload has no \<open>response\<close>
  (also when it is \<open>null\<close>, where reading the field raises). No exception leaves the
  function: it has a result on every line.
\<close>

theorem C8_untransformable_line_unchanged:
  assumes "\<not> startsWith line (js ''data:'')
         \<or> trim (drop 5 line) = []
         \<or> JSON_parse P (trim (drop 5 line)) = None
         \<or> (\<exists>parsed. JSON_parse P (trim (drop 5 line)) = Some parsed
               \<and> (get_prop parsed (js ''response'') = None
                    \<or> get_prop parsed (js ''response'') = Some JUndefined))"
  shows "transformSseLine P line callbacks options st = (line, st)"
  using assms by (auto simp: transformSseLine_def Let_def)

text \<open>C8, on a line of each kind.\<close>

theorem C8_witness:
  "transformSseLine demo_platform (js ''event: ping'') no_callbacks no_options fresh_state
     = (js ''event: ping'', fresh_state)
   \<and> transformSseLine demo_platform (js ''data:   '') no_callbacks no_options fresh_state
     = (js ''data:   '', fresh_state)
   \<and> transformSseLine demo_platform (js ''data: {broken'') no_callbacks no_options fresh_state
     = (js ''data: {broken'', fresh_state)
   \<and> transformSseLine demo_platform (js ''data: {\"other\":1}'') no_callbacks no_options fresh_state
     = (js ''data: {\"other\":1}'', fresh_state)
   \<and> transformSseLine demo_platform (js ''data: null'') no_callbacks no_options fresh_state
     = (js ''data: null'', fresh_state)"
proof (intro conjI)
  show "transformSseLine demo_platform (js ''event: ping'') no_callbacks no_options fresh_state
     = (js ''event: ping'', fresh_state)"
    by (rule C8_untransformable_line_unchanged) (simp add: startsWith_def)
  show "transformSseLine demo_platform (js ''data:   '') no_callbacks no_options fresh_state
     = (js ''data:   '', fresh_state)"
    by (rule C8_untransformable_line_unchanged) (simp add: trim_def is_js_space_def)
  show "transformSseLine demo_platform (js ''data: {broken'') no_callbacks no_options fresh_state
     = (js ''data: {broken'', fresh_state)"
    by (rule C8_untransformable_line_unchanged)
       (simp add: trim_def is_js_space_def demo_platform_def)
  show "transformSseLine demo_platform (js ''data: {\"other\":1}'') no_callbacks no_options fresh_state
     = (js ''data: {\"other\":1}'', fresh_state)"
    by (rule C8_untransformable_line_unchanged)
       (simp add: trim_def is_js_space_def demo_platform_def)
  show "transformSseLine demo_platform (js ''data: null'') no_callbacks no_options fresh_state
     = (js ''data: null'', fresh_state)"
    by (rule C8_untransformable_line_unchanged)
       (simp add: trim_def is_js_space_def demo_platform_def)
qed

lemma split_lines_no_LF: "LF \<notin> set s \<Longrightarrow> split_lines s = [s]"
  by (induction s) auto

text \<open>
  C10. For every line without a newline and every \<open>transformThinkingParts\<close> (given or not),
  \<open>transformSseLine\<close> with \<open>cacheSignatures\<close> off and no (or an empty) \<open>debugText\<close> returns the string
  that \<open>transformStreamingPayload\<close> returns for that line and that callback, and changes no
  state.
\<close>

theorem C10_payload_equals_sse_line:
  assumes "LF \<notin> set line" and "\<not> cacheSignatures options"
    and "\<not> truthy_string (debugText options)"
  shows "transformSseLine P line callbacks options st =
           (transformStreamingPayload P line (transformThinkingParts callbacks), st)"
  using assms
  by (auto simp: transformStreamingPayload_def split_lines_no_LF transform_payload_line_def
      transformSseLine_def Let_def split: option.splits)

text \<open>C10, on a line that is rewritten.\<close>

theorem C10_witness:
  "transformSseLine demo_platform (js ''data: {\"response\":{\"a\":1}}'') no_callbacks no_options fresh_state
     = (transformStreamingPayload demo_platform (js ''data: {\"response\":{\"a\":1}}'') None, fresh_state)
   \<and> transformStreamingPayload demo_platform (js ''data: {\"response\":{\"a\":1}}'') None
     = js ''data: {\"a\":1}''"
proof -
  have a: "LF \<notin> set (js ''data: {\"response\":{\"a\":1}}'')" by (simp add: LF_def)
  have b: "\<not> cacheSignatures no_options" "\<not> truthy_string (debugText no_options)"
    by (simp_all add: no_options_def truthy_string_def)
  have c: "transformStreamingPayload demo_platform (js ''data: {\"response\":{\"a\":1}}'') None
     = js ''data: {\"a\":1}''"
    by (simp add: transformStreamingPayload_def LF_def line_defs demo_platform_def)
  from C10_payload_equals_sse_line [OF a b, of demo_platform no_callbacks fresh_state] c
  show ?thesis by (simp add: no_callbacks_def)
qed

section \<open>Properties of the streaming transformer\<close>

lemma split_lines_not_Nil: "split_lines s \<noteq> []"
  by (induction s) (auto split: list.splits)

lemma split_lines_append:
  "split_lines (x @ y) = butlast (split_lines x) @ split_lines (last (split_lines x) @ y)"
proof (induction x)
  case Nil
  then show ?case by simp
next
  case (Cons c x)
  obtain l ls where sx: "split_lines x = l # ls"
    using split_lines_not_Nil [of x] by (cases "split_lines x") auto
  obtain m ms where sxy: "split_lines (last (split_lines x) @ y) = m # ms"
    using split_lines_not_Nil [of "last (split_lines x) @ y"]
    by (cases "split_lines (last (split_lines x) @ y)") auto
  show ?case
  proof (cases "c = LF")
    case True
    then show ?thesis using Cons.IH sx by simp
  next
    case False
    show ?thesis
    proof (cases ls)
      case Nil
      with False sx sxy Cons.IH show ?thesis by simp
    next
      case (Cons l' ls')
      with False sx sxy Cons.IH show ?thesis by simp
    qed
  qed
qed

lemma decode_stream_append:
  "decode_stream D (a @ b) =
     (case decode_stream D a of
        (D1, out1) \<Rightarrow> (case decode_stream D1 b of (D2, out2) \<Rightarrow> (D2, out1 @ out2)))"
  by (induction a arbitrary: D) (auto split: prod.splits)

lemma transform_lines_append:
  "transform_lines P cb opts (xs @ ys) st =
     (case transform_lines P cb opts xs st of
        (st1, out1) \<Rightarrow>
          (case transform_lines P cb opts ys st1 of (st2, out2) \<Rightarrow> (st2, out1 @ out2)))"
  by (induction xs arbitrary: st) (auto split: prod.splits)

lemma transform_append:
  "transform P cb opts (a @ b) T =
     (case transform P cb opts a T of
        (T1, out1) \<Rightarrow>
          (case transform P cb opts b T1 of (T2, out2) \<Rightarrow> (T2, out1 @ out2)))"
proof -
  obtain D1 s1 where d1: "decode_stream (decoder T) a = (D1, s1)"
    by (cases "decode_stream (decoder T) a")
  obtain D2 s2 where d2: "decode_stream D1 b = (D2, s2)"
    by (cases "decode_stream D1 b")
  have d: "decode_stream (decoder T) (a @ b) = (D2, s1 @ s2)"
    by (simp add: decode_stream_append d1 d2)
  let ?l1 = "split_lines (buffer T @ s1)"
  let ?l2 = "split_lines (last ?l1 @ s2)"
  have l: "split_lines (buffer T @ s1 @ s2) = butlast ?l1 @ ?l2"
    using split_lines_append [of "buffer T @ s1" s2] by simp
  have bl: "butlast (butlast ?l1 @ ?l2) = butlast ?l1 @ butlast ?l2"
    by (simp add: butlast_append split_lines_not_Nil)
  have la: "last (butlast ?l1 @ ?l2) = last ?l2"
    by (simp add: split_lines_not_Nil)
  show ?thesis
    by (simp add: transform_def d d1 d2 l bl la Let_def split_lines_not_Nil transform_lines_append
        split: prod.splits)
qed

lemma split_lines_snoc_LF_ex: "\<exists>l ls. split_lines (s @ [LF]) = l # ls @ [[]]"
  by (induction s) auto

lemma split_lines_snoc_LF: "last (split_lines (s @ [LF])) = []"
  using split_lines_snoc_LF_ex [of s] by auto

lemma serialize_append:
  "serialize seen (xs @ ys) =
     (case serialize seen xs of
        (seen1, out1) \<Rightarrow> (case serialize seen1 ys of (seen2, out2) \<Rightarrow> (seen2, out1 @ out2)))"
  by (induction seen xs rule: serialize.induct) (auto split: prod.splits)

lemma boundaries_ok_handler:
  "boundaries_ok d \<Longrightarrow> boundaries_ok (fst (utf8_handler d b))"
  by (auto simp: boundaries_ok_def utf8_handler_def utf8_lead_def utf8_initial_def Let_def
      split: prod.splits)

lemma boundaries_ok_byte:
  assumes "boundaries_ok (utf8 D)"
  shows "boundaries_ok (utf8 (fst (decode_byte D b)))"
proof -
  obtain d cps where h: "utf8_handler (utf8 D) (unat b) = (d, cps)"
    by (cases "utf8_handler (utf8 D) (unat b)")
  obtain seen out where z: "serialize (bom_seen D) cps = (seen, out)"
    by (cases "serialize (bom_seen D) cps")
  from boundaries_ok_handler [OF assms, of "unat b"] h z show ?thesis
    by (simp add: decode_byte_def)
qed

lemma boundaries_ok_stream:
  "boundaries_ok (utf8 D) \<Longrightarrow> boundaries_ok (utf8 (fst (decode_stream D bs)))"
proof (induction bs arbitrary: D)
  case Nil
  then show ?case by simp
next
  case (Cons b bs)
  from Cons.IH [OF boundaries_ok_byte [OF Cons.prems, of b]] show ?case
    by (auto split: prod.splits)
qed

lemma decode_newline:
  assumes "boundaries_ok (utf8 D)"
  shows "\<exists>D' pre. decode_byte D 0x0A = (D', pre @ [LF]) \<and> bytes_needed (utf8 D') = 0"
proof (cases "bytes_needed (utf8 D) = 0")
  case True
  then show ?thesis
    by (cases "bom_seen D")
       (auto simp: decode_byte_def utf8_handler_def utf8_lead_def utf16_units_def LF_def)
next
  case False
  with assms have h: "utf8_handler (utf8 D) 10 = (utf8_initial, [REPLACEMENT, 10])"
    by (simp add: utf8_handler_def utf8_lead_def boundaries_ok_def)
  show ?thesis
    by (cases "bom_seen D")
       (auto simp: decode_byte_def h utf16_units_def LF_def REPLACEMENT_def utf8_initial_def)
qed

text \<open>
  After a chunk that ends with a newline byte nothing is carried over and the decoder has
  no open sequence: the end of the stream enqueues nothing.
\<close>

lemma flush_after_newline:
  "snd (run_stream P callbacks options signatureStore [c @ [0x0A]])
     = snd (feed P callbacks options [c @ [0x0A]] (createStreamingTransformer signatureStore))"
proof -
  let ?T = "createStreamingTransformer signatureStore"
  obtain D1 s1 where d1: "decode_stream (decoder ?T) c = (D1, s1)"
    by (cases "decode_stream (decoder ?T) c")
  have ok: "boundaries_ok (utf8 D1)"
    using boundaries_ok_stream [of "decoder ?T" c] d1
    by (simp add: createStreamingTransformer_def new_TextDecoder_def utf8_initial_def boundaries_ok_def)
  from decode_newline [OF ok] obtain D2 pre
    where d2: "decode_byte D1 0x0A = (D2, pre @ [LF])" and n: "bytes_needed (utf8 D2) = 0"
    by blast
  have d: "decode_stream (decoder ?T) (c @ [0x0A]) = (D2, (s1 @ pre) @ [LF])"
    by (simp add: decode_stream_append d1 d2)
  have e: "decode_end D2 = []"
    by (simp add: decode_end_def utf8_end_def n)
  have b: "buffer ?T = []" by (simp add: createStreamingTransformer_def)
  have l: "last (split_lines (s1 @ pre @ [LF])) = []"
    using split_lines_snoc_LF [of "s1 @ pre"] by simp
  show ?thesis
    by (simp add: run_stream_def transform_def d b Let_def split_lines_not_Nil
        l flush_def e split: prod.splits)
qed

text \<open>
  C3. For every two chunks \<open>a\<close> and \<open>b\<close>, so for every cut of the bytes of a line with its
  newline, also inside a multi-byte character: writing \<open>a\<close> and then \<open>b\<close> to the transformer
  and ending the stream enqueues the same chunks, hence the same bytes, and leaves the same
  state as writing \<open>a @ b\<close> as one chunk and ending the stream. When the bytes end with a
  newline, the one chunk has enqueued all of it before the stream ends.
\<close>

theorem C3_split_chunks_same_output:
  "run_stream P callbacks options signatureStore [a, b]
     = run_stream P callbacks options signatureStore [a @ b]
   \<and> concat (snd (run_stream P callbacks options signatureStore [a, b]))
     = concat (snd (run_stream P callbacks options signatureStore [a @ b]))
   \<and> (a @ b \<noteq> [] \<and> last (a @ b) = 0x0A \<longrightarrow>
        snd (run_stream P callbacks options signatureStore [a, b])
          = snd (feed P callbacks options [a @ b] (createStreamingTransformer signatureStore)))"
proof -
  have same: "run_stream P callbacks options signatureStore [a, b]
                = run_stream P callbacks options signatureStore [a @ b]"
    by (simp add: run_stream_def transform_append split: prod.splits)
  have "snd (run_stream P callbacks options signatureStore [a @ b])
          = snd (feed P callbacks options [a @ b] (createStreamingTransformer signatureStore))"
    if "a @ b \<noteq> []" and "last (a @ b) = 0x0A"
  proof -
    from that have "a @ b = butlast (a @ b) @ [0x0A]"
      by (metis append_butlast_last_id)
    then show ?thesis
      using flush_after_newline [of P callbacks options signatureStore "butlast (a @ b)"]
      by simp
  qed
  with same show ?thesis by simp
qed

lemmas decoder_defs = new_TextDecoder_def decode_byte_def utf8_handler_def utf8_lead_def
  utf8_initial_def utf16_units_def decode_end_def utf8_end_def REPLACEMENT_def

text \<open>
  The decoder on \<open>C3 A9\<close>: whole, and cut in two; a stream that ends after \<open>C3\<close> gives
  \<open>U+FFFD\<close>.
\<close>

lemma decode_split_character:
  "snd (decode_stream new_TextDecoder [0xC3, 0xA9]) = [0xE9] \<and>
   decode_stream new_TextDecoder [0xC3] =
     (\<lparr>utf8 = \<lparr>code_point = 3, bytes_seen = 0, bytes_needed = 1,
               lower_boundary = 0x80, upper_boundary = 0xBF\<rparr>, bom_seen = False\<rparr>, []) \<and>
   snd (decode_stream (fst (decode_stream new_TextDecoder [0xC3])) [0xA9]) = [0xE9] \<and>
   decode_end (fst (decode_stream new_TextDecoder [0xC3])) = [REPLACEMENT]"
  by (simp add: decoder_defs)

lemma encode_ascii: "list_all (\<lambda>c. c < 0x80) s \<Longrightarrow> encode s = map of_nat s"
proof (induction s rule: scalar_values.induct)
  case 1
  then show ?case by (simp add: encode_def)
next
  case (2 c)
  then show ?case by (simp add: encode_def utf8_bytes_def is_surrogate_def)
next
  case (3 c d cs)
  then show ?case by (simp add: encode_def utf8_bytes_def is_surrogate_def)
qed

text \<open>
  C3, on the line \<open>data: {"response":"\<dots>"}\<close> cut inside its two-byte character: the output
  is the rewritten line \<open>data: "\<dots>"\<close> with its newline.
\<close>

theorem C3_split_inside_character:
  "snd (run_stream demo_platform no_callbacks no_options createSignatureStore
          [example_head, example_tail])
     = [encode (js ''data: \"'' @ [0xE9] @ js ''\"'' @ [LF])]
   \<and> snd (feed demo_platform no_callbacks no_options [example_head @ example_tail]
          (createStreamingTransformer createSignatureStore))
     = [encode (js ''data: \"'' @ [0xE9] @ js ''\"'' @ [LF])]"
proof -
  have whole: "example_head @ example_tail =
      map of_nat (js ''data: {\"response\":\"'') @ [0xC3, 0xA9] @ map of_nat (js ''\"}'' @ [LF])"
    by (simp add: example_head_def example_tail_def encode_ascii LF_def)
  have ends: "example_head @ example_tail \<noteq> [] \<and> last (example_head @ example_tail) = 0x0A"
    unfolding whole by (simp add: LF_def)
  have one: "snd (run_stream demo_platform no_callbacks no_options createSignatureStore
          [example_head @ example_tail])
     = [encode (js ''data: \"'' @ [0xE9] @ js ''\"'' @ [LF])]"
    unfolding whole
    by (simp add: run_stream_def createStreamingTransformer_def transform_def flush_def
        decoder_defs LF_def line_defs demo_platform_def no_callbacks_def no_options_def
        encode_ascii)
  note split = C3_split_chunks_same_output [of demo_platform no_callbacks no_options
      createSignatureStore example_head example_tail]
  from split have same: "run_stream demo_platform no_callbacks no_options createSignatureStore
          [example_head, example_tail]
     = run_stream demo_platform no_callbacks no_options createSignatureStore
          [example_head @ example_tail]"
    by (rule conjunct1)
  from split ends have fed: "snd (run_stream demo_platform no_callbacks no_options
          createSignatureStore [example_head, example_tail])
     = snd (feed demo_platform no_callbacks no_options [example_head @ example_tail]
          (createStreamingTransformer createSignatureStore))"
    by blast
  from one same have two: "snd (run_stream demo_platform no_callbacks no_options
          createSignatureStore [example_head, example_tail])
     = [encode (js ''data: \"'' @ [0xE9] @ js ''\"'' @ [LF])]"
    by (simp only:)
  from two fed show ?thesis
    by (simp only: simp_thms)
qed

section \<open>Properties of getRetryDelay\<close>

lemma capped_delay_mono: "capped_delay a \<le> capped_delay (Suc a)"
  by (simp add: capped_delay_def INITIAL_RETRY_DELAY_MS_def MAX_RETRY_DELAY_MS_def min_def)

lemma capped_delay_bounds: "0 \<le> capped_delay a \<and> capped_delay a \<le> MAX_RETRY_DELAY_MS"
  by (simp add: capped_delay_def INITIAL_RETRY_DELAY_MS_def MAX_RETRY_DELAY_MS_def)

lemma getRetryDelay_capped: "getRetryDelay a r = \<lfloor>capped_delay a * (0.8 + r * 0.4)\<rfloor>"
  by (simp add: getRetryDelay_def capped_delay_def Let_def)

lemma getRetryDelay_mono:
  assumes "0 \<le> r"
  shows "getRetryDelay a r \<le> getRetryDelay (Suc a) r"
proof -
  have "capped_delay a * (0.8 + r * 0.4) \<le> capped_delay (Suc a) * (0.8 + r * 0.4)"
    using assms by (intro mult_right_mono capped_delay_mono) simp
  then show ?thesis
    unfolding getRetryDelay_capped by (rule floor_mono)
qed

lemma low_is_integer: "0.8 * capped_delay a = of_int (min (80 * 2 ^ a) 1600)"
proof -
  have "0.8 * capped_delay a = min (80 * 2 ^ a) (1600 :: real)"
    by (simp add: capped_delay_def INITIAL_RETRY_DELAY_MS_def MAX_RETRY_DELAY_MS_def min_def)
  also have "\<dots> = of_int (min (80 * 2 ^ a) 1600)"
    by (simp add: of_int_min)
  finally show ?thesis .
qed

lemma getRetryDelay_lower:
  assumes "0 \<le> r"
  shows "0.8 * capped_delay a \<le> of_int (getRetryDelay a r)"
proof -
  have "0.8 * capped_delay a \<le> capped_delay a * (0.8 + r * 0.4)"
    using assms capped_delay_bounds [of a] by (simp add: algebra_simps)
  then have "of_int (min (80 * 2 ^ a) 1600) \<le> capped_delay a * (0.8 + r * 0.4)"
    unfolding low_is_integer .
  then have "min (80 * 2 ^ a) 1600 \<le> \<lfloor>capped_delay a * (0.8 + r * 0.4)\<rfloor>"
    by (simp only: le_floor_iff)
  then have "(of_int (min (80 * 2 ^ a) 1600) :: real)
               \<le> of_int \<lfloor>capped_delay a * (0.8 + r * 0.4)\<rfloor>"
    by (simp only: of_int_le_iff)
  then show ?thesis
    unfolding low_is_integer getRetryDelay_capped .
qed

lemma getRetryDelay_upper:
  assumes "r < 1"
  shows "of_int (getRetryDelay a r) \<le> 1.2 * capped_delay a"
proof -
  have "of_int (getRetryDelay a r) \<le> capped_delay a * (0.8 + r * 0.4)"
    unfolding getRetryDelay_capped by (rule of_int_floor_le)
  also have "\<dots> \<le> capped_delay a * 1.2"
    using assms capped_delay_bounds [of a] by (intro mult_left_mono) simp_all
  finally show ?thesis by (simp add: mult.commute)
qed

lemma mean_delay_mono: "mean_delay n a \<le> mean_delay n (Suc a)"
  unfolding mean_delay_def
  by (intro divide_right_mono sum_mono) (simp_all add: getRetryDelay_mono)

text \<open>
  C9. For every attempt \<open>a\<close> and every random draw \<open>r\<close> in \<open>[0, 1)\<close>, with real arithmetic:
  the delay is the floor of \<open>min (100 * 2^a) 2000 * (0.8 + 0.4 * r)\<close>, which lies within 20
  percent of the capped exponential delay; it does not decrease from an attempt to the next
  at the same draw, so neither does its mean over any number \<open>n\<close> of equally likely draws
  \<open>k/n\<close> (for \<open>n = 2^53\<close>, the draws of a generator that returns multiples of \<open>2^-53\<close>);
  and it never exceeds the maximum delay with the jitter's 20 percent added (2400 ms).
\<close>

theorem C9_backoff_delay:
  assumes "0 \<le> r" and "r < 1"
  shows "getRetryDelay a r =
           \<lfloor>min (INITIAL_RETRY_DELAY_MS * 2 ^ a) MAX_RETRY_DELAY_MS * (0.8 + r * 0.4)\<rfloor>
       \<and> 0.8 * capped_delay a \<le> of_int (getRetryDelay a r)
       \<and> of_int (getRetryDelay a r) \<le> 1.2 * capped_delay a
       \<and> getRetryDelay a r \<le> getRetryDelay (Suc a) r
       \<and> (\<forall>n. mean_delay n a \<le> mean_delay n (Suc a))
       \<and> of_int (getRetryDelay a r) \<le> 1.2 * MAX_RETRY_DELAY_MS"
proof -
  have "of_int (getRetryDelay a r) \<le> 1.2 * capped_delay a"
    using assms(2) by (rule getRetryDelay_upper)
  also have "\<dots> \<le> 1.2 * MAX_RETRY_DELAY_MS"
    using capped_delay_bounds [of a] by simp
  finally have cap: "of_int (getRetryDelay a r) \<le> 1.2 * MAX_RETRY_DELAY_MS" .
  show ?thesis
    using assms cap getRetryDelay_lower [of r a] getRetryDelay_upper [of r a]
      getRetryDelay_mono [of r a] mean_delay_mono
    by (simp add: getRetryDelay_def Let_def)
qed

text \<open>C9, at attempt 1 and the draw \<open>1/2\<close>.\<close>

theorem C9_witness:
  "getRetryDelay 1 (1 / 2) = 200 \<and> getRetryDelay 2 (1 / 2) = 400
   \<and> (0.8 :: real) * capped_delay 1 \<le> 200 \<and> (200 :: real) \<le> 1.2 * capped_delay 1
   \<and> mean_delay 4 1 \<le> mean_delay 4 2
   \<and> (200 :: real) \<le> 1.2 * MAX_RETRY_DELAY_MS"
proof -
  have v: "getRetryDelay 1 (1 / 2) = 200" "getRetryDelay 2 (1 / 2) = 400"
    by (simp_all add: getRetryDelay_def INITIAL_RETRY_DELAY_MS_def MAX_RETRY_DELAY_MS_def)
  from C9_backoff_delay [of "1 / 2" 1] v show ?thesis
    by (simp add: numeral_2_eq_2)
qed

end
